theory Spec2Isabelle
  imports Complex_Main "HOL-Library.Sublist"
begin

section \<open>JavaScript numbers\<close>

text \<open>
  A JavaScript number is an IEEE-754 binary64 value. The finite ones are rational numbers,
  so \<open>Fin r\<close> carries the exact value \<open>r\<close>; every arithmetic operation computes the exact
  rational result and rounds it to the nearest binary64 value, ties to even (\<open>fl64\<close>).
  The sign of zero is not represented: no operation of \<^verbatim>\<open>functions/index.js\<close>
  distinguishes \<open>-0\<close> from \<open>0\<close>.
\<close>

datatype jsnum = NaN | PosInf | NegInf | Fin rat

function bit_length :: "int \<Rightarrow> int" where
  "bit_length n = (if n \<le> 0 then 0 else 1 + bit_length (n div 2))"
  by pat_completeness auto
termination
  by (relation "measure nat") auto

declare bit_length.simps [simp del]

definition pow2 :: "int \<Rightarrow> rat" where
  "pow2 k = (if 0 \<le> k then of_int (2 ^ nat k) else 1 / of_int (2 ^ nat (- k)))"

text \<open>\<open>ilog2 x\<close> is the binary exponent of a positive rational: \<open>2 ^ e \<le> x < 2 ^ (e + 1)\<close>.\<close>

definition ilog2 :: "rat \<Rightarrow> int" where
  "ilog2 x = (let (p, q) = quotient_of x;
                  k = bit_length p - bit_length q
              in if pow2 k \<le> x then k else k - 1)"

definition round_half_even :: "rat \<Rightarrow> int" where
  "round_half_even x = (let f = \<lfloor>x\<rfloor>; d = x - of_int f
     in if d < 1 / 2 then f else if 1 / 2 < d then f + 1 else if even f then f else f + 1)"

text \<open>
  Rounding to binary64: 53 significant bits, the exponent clamped below at \<open>-1022\<close>
  (subnormals share the quantum \<open>2 ^ -1074\<close>), overflow to infinity from \<open>2 ^ 1024\<close> on.
\<close>

definition fl64 :: "rat \<Rightarrow> jsnum" where
  "fl64 x = (if x = 0 then Fin 0
     else let a = \<bar>x\<bar>;
              e = max (ilog2 a) (- 1022);
              q = pow2 (e - 52);
              y = of_int (round_half_even (a / q)) * q
          in if pow2 1024 \<le> y then (if 0 < x then PosInf else NegInf)
             else Fin (if 0 < x then y else - y))"

definition js_sign :: "jsnum \<Rightarrow> int" where
  "js_sign x = (case x of NaN \<Rightarrow> 0 | PosInf \<Rightarrow> 1 | NegInf \<Rightarrow> - 1
                | Fin r \<Rightarrow> (if 0 < r then 1 else if r < 0 then - 1 else 0))"

definition signed_inf :: "int \<Rightarrow> jsnum" where
  "signed_inf s = (if s = 0 then NaN else if 0 < s then PosInf else NegInf)"

text \<open>The operator \<^verbatim>\<open>*\<close> on numbers.\<close>

definition js_mul :: "jsnum \<Rightarrow> jsnum \<Rightarrow> jsnum" where
  "js_mul x y = (case (x, y) of
       (Fin a, Fin b) \<Rightarrow> fl64 (a * b)
     | _ \<Rightarrow> if x = NaN \<or> y = NaN then NaN else signed_inf (js_sign x * js_sign y))"

text \<open>The operator \<^verbatim>\<open>/\<close> on numbers.\<close>

definition js_div :: "jsnum \<Rightarrow> jsnum \<Rightarrow> jsnum" where
  "js_div x y = (case (x, y) of
       (Fin a, Fin b) \<Rightarrow> (if b = 0 then signed_inf (js_sign x) else fl64 (a / b))
     | (Fin a, _) \<Rightarrow> (if y = NaN then NaN else Fin 0)
     | (_, Fin b) \<Rightarrow> (if x = NaN then NaN
                        else signed_inf (js_sign x * (if b < 0 then - 1 else 1)))
     | _ \<Rightarrow> NaN)"

text \<open>\<^verbatim>\<open>Math.round\<close>: the nearest integer, a tie going towards \<open>+\<infinity>\<close>.\<close>

definition Math_round :: "jsnum \<Rightarrow> jsnum" where
  "Math_round x = (case x of Fin r \<Rightarrow> Fin (of_int \<lfloor>r + 1 / 2\<rfloor>) | _ \<Rightarrow> x)"

definition js_less :: "jsnum \<Rightarrow> jsnum \<Rightarrow> bool" where
  "js_less x y = (case (x, y) of
       (Fin a, Fin b) \<Rightarrow> a < b
     | (NegInf, Fin b) \<Rightarrow> True | (NegInf, PosInf) \<Rightarrow> True | (Fin a, PosInf) \<Rightarrow> True
     | _ \<Rightarrow> False)"

text \<open>\<^verbatim>\<open>Math.min\<close> of two numbers: \<open>NaN\<close> when either is.\<close>

definition Math_min :: "jsnum \<Rightarrow> jsnum \<Rightarrow> jsnum" where
  "Math_min x y = (if x = NaN \<or> y = NaN then NaN else if js_less y x then y else x)"

text \<open>Truthiness of a number, and \<^verbatim>\<open>x || d\<close> on numbers.\<close>

definition num_truthy :: "jsnum \<Rightarrow> bool" where
  "num_truthy x = (x \<noteq> NaN \<and> x \<noteq> Fin 0)"

definition num_or :: "jsnum \<Rightarrow> jsnum \<Rightarrow> jsnum" where
  "num_or x d = (if num_truthy x then x else d)"

section \<open>Strings and \<^verbatim>\<open>parseInt\<close>\<close>

text \<open>
  Strings are byte lists holding UTF-8, so a character beyond ASCII is two to four bytes.
  \<open>space_prefix\<close> gives the number of bytes of the white space character a string starts
  with, 0 when it starts with none (\<open>space_len\<close> reads it off the byte values). The characters are those of \<^verbatim>\<open>StrWhiteSpaceChar\<close>:
  TAB, LF, VT, FF, CR, SP, U+00A0, U+1680, U+2000 to U+200A, U+2028, U+2029, U+202F,
  U+205F, U+3000 and U+FEFF.
\<close>

fun space_len :: "nat list \<Rightarrow> nat" where
  "space_len [] = 0"
| "space_len [a] = (if a \<in> {9, 10, 11, 12, 13, 32} then 1 else 0)"
| "space_len [a, b] =
     (if a \<in> {9, 10, 11, 12, 13, 32} then 1 else if (a, b) = (194, 160) then 2 else 0)"
| "space_len (a # b # c # bs) =
     (if a \<in> {9, 10, 11, 12, 13, 32} then 1
      else if (a, b) = (194, 160) then 2
      else if (a, b, c) \<in> {(225, 154, 128), (226, 128, 168), (226, 128, 169), (226, 128, 175),
                             (226, 129, 159), (227, 128, 128), (239, 187, 191)} then 3
      else if (a, b) = (226, 128) \<and> 128 \<le> c \<and> c \<le> 138 then 3
      else 0)"

definition space_prefix :: "string \<Rightarrow> nat" where
  "space_prefix cs = space_len (map of_char cs)"

function strip_space :: "string \<Rightarrow> string" where
  "strip_space cs =
     (if space_prefix cs = 0 then cs else strip_space (drop (space_prefix cs) cs))"
  by pat_completeness auto
termination
proof (relation "measure length")
  fix cs :: string
  assume pos: "space_prefix cs \<noteq> 0"
  have "space_len bs \<le> length bs" for bs
    by (cases bs rule: space_len.cases) auto
  from this [of "map of_char cs"] have "space_prefix cs \<le> length cs"
    by (simp add: space_prefix_def)
  with pos show "(drop (space_prefix cs) cs, cs) \<in> measure length"
    by auto
qed simp

declare strip_space.simps [simp del]

text \<open>
  \<^verbatim>\<open>parseInt(v)\<close> with no radix: the argument is converted to a string (\<open>undefined\<close>
  becomes the text \<^verbatim>\<open>undefined\<close>), leading white space is dropped, a sign is read, a
  \<^verbatim>\<open>0x\<close> prefix selects radix 16, and the longest prefix of digits is the value; no digit
  gives \<open>NaN\<close>.
\<close>

definition digit_of :: "char \<Rightarrow> int option" where
  "digit_of c = (let n = (of_char c :: nat) in
      if 48 \<le> n \<and> n \<le> 57 then Some (int n - 48)
      else if 97 \<le> n \<and> n \<le> 122 then Some (int n - 87)
      else if 65 \<le> n \<and> n \<le> 90 then Some (int n - 55)
      else None)"

fun digits_prefix :: "int \<Rightarrow> string \<Rightarrow> int list" where
  "digits_prefix R [] = []"
| "digits_prefix R (c # cs) =
     (case digit_of c of
        Some d \<Rightarrow> (if d < R then d # digits_prefix R cs else [])
      | None \<Rightarrow> [])"

definition math_int :: "int \<Rightarrow> int list \<Rightarrow> int" where
  "math_int R ds = foldl (\<lambda>a d. a * R + d) 0 ds"

definition parseInt :: "string option \<Rightarrow> jsnum" where
  "parseInt v =
     (let s = (case v of None \<Rightarrow> ''undefined'' | Some t \<Rightarrow> t);
          s1 = strip_space s;
          neg = (take 1 s1 = ''-'');
          s2 = (if take 1 s1 = ''+'' \<or> take 1 s1 = ''-'' then drop 1 s1 else s1);
          hex = (take 2 s2 = ''0x'' \<or> take 2 s2 = ''0X'');
          R = (if hex then 16 else 10);
          s3 = (if hex then drop 2 s2 else s2);
          ds = digits_prefix R s3
      in if ds = [] then NaN
         else fl64 (of_int ((if neg then - 1 else 1) * math_int R ds)))"

text \<open>Truthiness of a string that may be \<open>undefined\<close>: absent and empty are falsy.\<close>

definition str_truthy :: "string option \<Rightarrow> bool" where
  "str_truthy v = (case v of None \<Rightarrow> False | Some s \<Rightarrow> s \<noteq> [])"

section \<open>Errors and responses\<close>

text \<open>
  What a \<^verbatim>\<open>catch\<close> block of the source can receive: a \<open>TypeError\<close> from reading a
  property of \<open>undefined\<close> or \<open>null\<close> (with the property read), a \<open>SyntaxError\<close> from
  \<^verbatim>\<open>JSON.parse\<close>, the error an external library call failed with, and the error that
  \<open>getAccessToken\<close> builds around an upstream failure.
\<close>

datatype js_error =
    TypeError string
  | SyntaxError
  | External string
  | AuthError js_error

datatype 'd body =
    ErrorMsg string
  | ErrorOf js_error
  | PlainText string
  | Data 'd
  | Url string
  | StatusReceived
  | Received

record 'd response =
  status :: nat
  body :: "'d body"

section \<open>Configuration\<close>

record env =
  INGRAM_CLIENT_ID :: "string option"
  INGRAM_CLIENT_SECRET :: "string option"
  INGRAM_SECRET_KEY :: "string option"
  INGRAM_CUSTOMER_NUMBER :: "string option"
  INGRAM_COUNTRY_CODE :: "string option"
  STRIPE_SECRET_KEY :: "string option"
  STRIPE_WEBHOOK_SECRET :: "string option"

text \<open>\<^verbatim>\<open>process.env.X || d\<close>.\<close>

definition str_or :: "string option \<Rightarrow> string \<Rightarrow> string" where
  "str_or v d = (case v of None \<Rightarrow> d | Some s \<Rightarrow> (if s = [] then d else s))"

definition IM_CUSTOMER_NUM :: "env \<Rightarrow> string" where
  "IM_CUSTOMER_NUM e = str_or (INGRAM_CUSTOMER_NUMBER e) ''SBX''"

definition IM_COUNTRY_CODE :: "env \<Rightarrow> string" where
  "IM_COUNTRY_CODE e = str_or (INGRAM_COUNTRY_CODE e) ''US''"

section \<open>JSON values\<close>

text \<open>
  A parsed JSON value, as \<^verbatim>\<open>req.body\<close> holds one and as \<^verbatim>\<open>JSON.parse\<close> returns
  one. A string that holds JSON text is represented by the value the text denotes:
  the character-level encoding is the engine's, not this program's, and no function of
  the source inspects it.
\<close>

datatype json =
    JNull
  | JBool bool
  | JNum rat
  | JStr string
  | JArr "json list"
  | JObj "(string \<times> json) list"

fun json_truthy :: "json \<Rightarrow> bool" where
  "json_truthy JNull = False"
| "json_truthy (JBool b) = b"
| "json_truthy (JNum r) = (r \<noteq> 0)"
| "json_truthy (JStr s) = (s \<noteq> [])"
| "json_truthy (JArr xs) = True"
| "json_truthy (JObj kvs) = True"

text \<open>
  Reading a named property \<^verbatim>\<open>v.k\<close> (for a key that is no array index and no built-in
  property): a \<open>TypeError\<close> on \<open>null\<close>, the member of an object, \<open>undefined\<close> (\<open>None\<close>)
  otherwise.
\<close>

fun get_prop :: "json \<Rightarrow> string \<Rightarrow> js_error + json option" where
  "get_prop JNull k = Inl (TypeError k)"
| "get_prop (JObj kvs) k = Inr (map_of kvs k)"
| "get_prop v k = Inr None"

text \<open>\<^verbatim>\<open>JSON.stringify\<close> of a number: a finite number is itself, the others are \<open>null\<close>.\<close>

definition json_of_num :: "jsnum \<Rightarrow> json" where
  "json_of_num x = (case x of Fin r \<Rightarrow> JNum r | _ \<Rightarrow> JNull)"

text \<open>
  \<^verbatim>\<open>JSON.parse\<close> of a string that may be \<open>undefined\<close>: \<open>None\<close> stands for an absent
  string and for one that is not JSON text, on both of which it throws a \<open>SyntaxError\<close>.
\<close>

definition JSON_parse :: "json option \<Rightarrow> js_error + json" where
  "JSON_parse t = (case t of None \<Rightarrow> Inl SyntaxError | Some v \<Rightarrow> Inr v)"

section \<open>Calls to the distributor\<close>

record search_opts =
  keyword :: "string list option"
  vendor :: "string list option"
  pageNumber :: jsnum
  pageSize :: jsnum

text \<open>
  The upstream calls a handler makes, in order: the credential exchange with client id
  and secret, the product search and the price and availability request, the last two
  with customer number, country code and correlation identifier (its prefix and the
  clock value appended to it).
\<close>

datatype upstream_call =
    Accesstoken "string option" "string option"
  | Productsearch string string "string \<times> int" search_opts
  | Priceandavailability string string "string \<times> int" "json list"

section \<open>Token cache\<close>

record token_cache =
  cachedToken :: "string option"
  tokenExpiry :: int

definition initial_cache :: token_cache where
  "initial_cache = \<lparr>cachedToken = None, tokenExpiry = 0\<rparr>"

text \<open>
  Modelled from the spec: the reply of the credential exchange. The SDK's response type
  is not part of the sources; the spec gives it an access token and a validity window,
  here \<open>expires_in\<close> in seconds. The source reads \<open>access_token\<close> only.
\<close>

record token_data =
  access_token :: "string option"
  expires_in :: int

text \<open>The SDK calls back with \<open>(err, data)\<close>: \<open>Inl\<close> is a truthy \<open>err\<close>.\<close>

type_synonym token_reply = "js_error + token_data"

text \<open>Line 25: \<^verbatim>\<open>cachedToken && Date.now() < tokenExpiry\<close>.\<close>

definition token_valid :: "token_cache \<Rightarrow> int \<Rightarrow> bool" where
  "token_valid c now = (str_truthy (cachedToken c) \<and> now < tokenExpiry c)"

text \<open>
  Lines 32 to 42, the callback of \<^verbatim>\<open>api.getAccesstoken\<close>, run at time \<open>now\<close>: it
  rejects on an error and otherwise stores the token with an expiry 55 minutes ahead.
\<close>

definition token_callback ::
  "token_cache \<Rightarrow> int \<Rightarrow> token_reply \<Rightarrow> (js_error + string option) \<times> token_cache" where
  "token_callback c now r =
     (case r of
        Inl err \<Rightarrow> (Inl (AuthError err), c)
      | Inr d \<Rightarrow> (Inr (access_token d),
                   c\<lparr>cachedToken := access_token d, tokenExpiry := now + 55 * 60 * 1000\<rparr>))"

text \<open>
  One call of \<open>getAccessToken\<close> run to completion with no other task in between: \<open>now\<close>
  is the clock at the call, \<open>net\<close> the time and content of the upstream reply, used only
  when an exchange is made. The last component lists the credential exchanges made.
\<close>

definition getAccessToken ::
  "env \<Rightarrow> token_cache \<Rightarrow> int \<Rightarrow> int \<times> token_reply
     \<Rightarrow> (js_error + string option) \<times> token_cache \<times> upstream_call list" where
  "getAccessToken e c now net =
     (if token_valid c now then (Inr (cachedToken c), c, [])
      else (let (r, c') = token_callback c (fst net) (snd net)
            in (r, c', [Accesstoken (INGRAM_CLIENT_ID e) (INGRAM_CLIENT_SECRET e)])))"

text \<open>
  Concurrent callers. The runtime is single-threaded: the body of \<open>getAccessToken\<close> up to
  the SDK call runs without interruption (\<open>Call\<close>), and each SDK callback runs later as a
  task of its own (\<open>Reply\<close>, for the exchange that caller started). A schedule is a list
  of such events; \<open>waiting\<close> holds the callers whose exchange is in flight and \<open>settled\<close>
  what each caller's promise settled with.
\<close>

datatype tok_event = Call nat int | Reply nat int token_reply

record tok_sched =
  cache :: token_cache
  waiting :: "nat list"
  exchanges :: nat
  settled :: "(nat \<times> (js_error + string option)) list"

fun tok_step :: "tok_sched \<Rightarrow> tok_event \<Rightarrow> tok_sched" where
  "tok_step s (Call i t) =
     (if token_valid (cache s) t
      then s\<lparr>settled := settled s @ [(i, Inr (cachedToken (cache s)))]\<rparr>
      else s\<lparr>waiting := waiting s @ [i], exchanges := Suc (exchanges s)\<rparr>)"
| "tok_step s (Reply i t r) =
     (if i \<in> set (waiting s)
      then (let (res, c') = token_callback (cache s) t r
            in s\<lparr>cache := c', waiting := removeAll i (waiting s),
                 settled := settled s @ [(i, res)]\<rparr>)
      else s)"

definition tok_run :: "tok_sched \<Rightarrow> tok_event list \<Rightarrow> tok_sched" where
  "tok_run s evs = foldl tok_step s evs"

definition cold_start :: tok_sched where
  "cold_start = \<lparr>cache = initial_cache, waiting = [], exchanges = 0, settled = []\<rparr>"

fun is_call_at_miss :: "token_cache \<Rightarrow> tok_event \<Rightarrow> bool" where
  "is_call_at_miss c (Call i t) = (\<not> token_valid c t)"
| "is_call_at_miss c (Reply i t r) = False"

fun caller :: "tok_event \<Rightarrow> nat" where
  "caller (Call i t) = i"
| "caller (Reply i t r) = i"

section \<open>Distributor gateway\<close>

record api_client =
  basePath :: string
  accessToken :: "string option"
  IM_CustomerNumber :: string
  IM_CountryCode :: string
  IM_SenderID :: string
  IM_SecretKey :: "string option"

definition getApiClient ::
  "env \<Rightarrow> token_cache \<Rightarrow> int \<Rightarrow> int \<times> token_reply
     \<Rightarrow> (js_error + api_client) \<times> token_cache \<times> upstream_call list" where
  "getApiClient e c now net =
     (case getAccessToken e c now net of
        (Inl err, c', calls) \<Rightarrow> (Inl err, c', calls)
      | (Inr token, c', calls) \<Rightarrow>
          (Inr \<lparr>basePath = ''https://api.ingrammicro.com:443/sandbox'',
                accessToken = token,
                IM_CustomerNumber = IM_CUSTOMER_NUM e,
                IM_CountryCode = IM_COUNTRY_CODE e,
                IM_SenderID = ''Pandishu'',
                IM_SecretKey = INGRAM_SECRET_KEY e\<rparr>, c', calls))"

record search_query =
  q_keyword :: "string option"
  q_vendor :: "string option"
  q_pageNumber :: "string option"
  q_pageSize :: "string option"

text \<open>Lines 85 to 90: the options sent with the product search.\<close>

definition search_opts_of :: "search_query \<Rightarrow> search_opts" where
  "search_opts_of q =
     \<lparr>keyword = (if str_truthy (q_keyword q) then map_option (\<lambda>k. [k]) (q_keyword q) else None),
      vendor = (if str_truthy (q_vendor q) then map_option (\<lambda>k. [k]) (q_vendor q) else None),
      pageNumber = num_or (parseInt (q_pageNumber q)) (Fin 1),
      pageSize = Math_min (num_or (parseInt (q_pageSize q)) (Fin 24)) (Fin 100)\<rparr>"

text \<open>
  \<open>searchProducts\<close>: \<open>t0\<close> is the clock when the token is looked up, \<open>net\<close> the reply of
  the credential exchange, \<open>t1\<close> the clock when the correlation identifier is built and
  \<open>reply\<close> what the distributor answers to the search.
\<close>

definition searchProducts ::
  "env \<Rightarrow> token_cache \<Rightarrow> string \<Rightarrow> search_query \<Rightarrow> int \<Rightarrow> int \<times> token_reply \<Rightarrow> int
     \<Rightarrow> js_error + 'd \<Rightarrow> 'd response \<times> token_cache \<times> upstream_call list" where
  "searchProducts e c method q t0 net t1 reply =
     (if method \<noteq> ''GET'' then (\<lparr>status = 405, body = ErrorMsg ''Method not allowed''\<rparr>, c, [])
      else (case getApiClient e c t0 net of
          (Inl err, c', calls) \<Rightarrow> (\<lparr>status = 500, body = ErrorOf err\<rparr>, c', calls)
        | (Inr client, c', calls) \<Rightarrow>
            (let call = Productsearch (IM_CUSTOMER_NUM e) (IM_COUNTRY_CODE e)
                          (''pandishu-search-'', t1) (search_opts_of q)
             in (case reply of
                   Inl err \<Rightarrow> (\<lparr>status = 500, body = ErrorOf err\<rparr>, c', calls @ [call])
                 | Inr d \<Rightarrow> (\<lparr>status = 200, body = Data d\<rparr>, c', calls @ [call])))))"

text \<open>
  \<open>getPriceAndAvailability\<close>: \<open>skus\<close> is the member of that name of the request body,
  \<open>None\<close> when the body has none. The messages are the source's, without their accents.
\<close>

definition getPriceAndAvailability ::
  "env \<Rightarrow> token_cache \<Rightarrow> string \<Rightarrow> json option \<Rightarrow> int \<Rightarrow> int \<times> token_reply \<Rightarrow> int
     \<Rightarrow> js_error + 'd \<Rightarrow> 'd response \<times> token_cache \<times> upstream_call list" where
  "getPriceAndAvailability e c method skus t0 net t1 reply =
     (if method \<noteq> ''POST'' then (\<lparr>status = 405, body = ErrorMsg ''Method not allowed''\<rparr>, c, [])
      else (case skus of
          Some (JArr xs) \<Rightarrow>
            (if length xs = 0
             then (\<lparr>status = 400, body = ErrorMsg ''Se requiere el array skus''\<rparr>, c, [])
             else if length xs > 50
             then (\<lparr>status = 400, body = ErrorMsg ''Maximo 50 SKUs por peticion''\<rparr>, c, [])
             else (case getApiClient e c t0 net of
                 (Inl err, c', calls) \<Rightarrow> (\<lparr>status = 500, body = ErrorOf err\<rparr>, c', calls)
               | (Inr client, c', calls) \<Rightarrow>
                   (let call = Priceandavailability (IM_CUSTOMER_NUM e) (IM_COUNTRY_CODE e)
                                 (''pandishu-pa-'', t1)
                                 (map (\<lambda>sku. JObj [(''ingramPartNumber'', sku)]) xs)
                    in (case reply of
                          Inl err \<Rightarrow> (\<lparr>status = 500, body = ErrorOf err\<rparr>, c', calls @ [call])
                        | Inr d \<Rightarrow> (\<lparr>status = 200, body = Data d\<rparr>, c', calls @ [call])))))
        | _ \<Rightarrow> (\<lparr>status = 400, body = ErrorMsg ''Se requiere el array skus''\<rparr>, c, [])))"

section \<open>Distributor event sink\<close>

record ingram_event =
  receivedAt :: int
  eventType :: json
  rawPayload :: json

text \<open>Line 177: \<^verbatim>\<open>event.topic || event.eventType || 'unknown'\<close>.\<close>

definition event_type_of :: "json \<Rightarrow> js_error + json" where
  "event_type_of event =
     (case get_prop event ''topic'' of
        Inl err \<Rightarrow> Inl err
      | Inr a \<Rightarrow>
          (if (case a of Some v \<Rightarrow> json_truthy v | None \<Rightarrow> False)
           then Inr (case a of Some v \<Rightarrow> v | None \<Rightarrow> JNull)
           else (case get_prop event ''eventType'' of
               Inl err \<Rightarrow> Inl err
             | Inr b \<Rightarrow>
                 (case b of
                    Some v \<Rightarrow> (if json_truthy v then Inr v else Inr (JStr ''unknown''))
                  | None \<Rightarrow> Inr (JStr ''unknown'')))))"

text \<open>Line 166: the signature header, and line 167: the condition of the warning.\<close>

definition signature_of :: "string option \<Rightarrow> string option \<Rightarrow> string" where
  "signature_of x_hub_signature authorization =
     (if str_truthy x_hub_signature then str_or x_hub_signature []
      else str_or authorization [])"

definition signature_mismatch :: "env \<Rightarrow> string \<Rightarrow> bool" where
  "signature_mismatch e signature =
     (case INGRAM_SECRET_KEY e of
        None \<Rightarrow> False
      | Some k \<Rightarrow> k \<noteq> [] \<and> signature \<noteq> [] \<and> \<not> sublist k signature)"

text \<open>
  \<open>ingramWebhook\<close>: \<open>evs\<close> is the collection \<^verbatim>\<open>ingram_events\<close>, \<open>now\<close> the server
  timestamp, \<open>fail\<close> the error the store raises on this write, if it does. The result
  holds the response, the collection afterwards and whether the warning was logged.
\<close>

definition ingramWebhook ::
  "env \<Rightarrow> ingram_event list \<Rightarrow> string \<Rightarrow> string option \<Rightarrow> string option \<Rightarrow> json \<Rightarrow> int
     \<Rightarrow> string option \<Rightarrow> 'd response \<times> ingram_event list \<times> bool" where
  "ingramWebhook e evs method x_hub_signature authorization event now fail =
     (if method \<noteq> ''POST'' then (\<lparr>status = 405, body = PlainText ''Method Not Allowed''\<rparr>, evs, False)
      else (let warned = signature_mismatch e (signature_of x_hub_signature authorization)
            in (case event_type_of event of
                Inl err \<Rightarrow> (\<lparr>status = 500, body = ErrorOf err\<rparr>, evs, warned)
              | Inr ty \<Rightarrow>
                  (case fail of
                     Some msg \<Rightarrow> (\<lparr>status = 500, body = ErrorOf (External msg)\<rparr>, evs, warned)
                   | None \<Rightarrow>
                       (\<lparr>status = 200, body = StatusReceived\<rparr>,
                        evs @ [\<lparr>receivedAt = now, eventType = ty, rawPayload = event\<rparr>],
                        warned)))))"

section \<open>Payments: checkout session\<close>

text \<open>\<open>getStripe\<close>: the client exists when the secret key is set and not empty.\<close>

definition getStripe :: "env \<Rightarrow> string option" where
  "getStripe e = (if str_truthy (STRIPE_SECRET_KEY e) then STRIPE_SECRET_KEY e else None)"

definition YOUR_DOMAIN :: string where
  "YOUR_DOMAIN = ''https://pandishu-web-1d860.web.app''"

record cart_item =
  sku :: string
  name :: string
  item_vendor :: string
  price :: jsnum
  quantity :: jsnum

record address =
  addr_street :: "string option"
  addr_colonia :: "string option"
  addr_zip :: "string option"
  addr_city :: "string option"
  addr_state :: "string option"
  addr_notes :: "string option"

record customer =
  cust_name :: "string option"
  cust_email :: "string option"
  cust_phone :: "string option"
  cust_address :: "address option"

text \<open>The request body \<^verbatim>\<open>{ items, customer }\<close>; \<open>None\<close> is a member that is absent.\<close>

record checkout_body =
  items :: "cart_item list option"
  customer :: "customer option"

record line_item =
  currency :: string
  product_name :: string
  description :: string
  product_sku :: string
  product_vendor :: string
  unit_amount :: jsnum
  li_quantity :: jsnum

text \<open>
  The metadata of a checkout session. \<open>items_json\<close> holds JSON text, represented by the
  value it denotes; \<open>None\<close> there is a missing key or a string that is not JSON text.
\<close>

record session_metadata =
  customer_name :: "string option"
  customer_email :: "string option"
  customer_phone :: "string option"
  shipping_street :: "string option"
  shipping_colonia :: "string option"
  shipping_zip :: "string option"
  shipping_city :: "string option"
  shipping_state :: "string option"
  shipping_notes :: "string option"
  items_json :: "json option"

record session_params =
  payment_method_types :: "string list"
  line_items :: "line_item list"
  mode :: string
  success_url :: string
  cancel_url :: string
  submit_type :: string
  metadata :: session_metadata
  params_customer_email :: "string option"

text \<open>Lines 222 to 239: one cart item as a line item of the payment processor.\<close>

definition line_item_of :: "cart_item \<Rightarrow> line_item" where
  "line_item_of item =
     \<lparr>currency = ''usd'',
      product_name = name item,
      description = ''SKU: '' @ sku item @ '' | Vendor: '' @ item_vendor item,
      product_sku = sku item,
      product_vendor = item_vendor item,
      unit_amount = Math_round (js_mul (price item) (Fin 100)),
      li_quantity = quantity item\<rparr>"

text \<open>
  Line 260: \<^verbatim>\<open>JSON.stringify(items.map(i => ({ sku, qty, price, name, vendor })))\<close>,
  as the value the text denotes.
\<close>

definition compact_item :: "cart_item \<Rightarrow> json" where
  "compact_item i =
     JObj [(''sku'', JStr (sku i)),
           (''qty'', json_of_num (quantity i)),
           (''price'', json_of_num (price i)),
           (''name'', JStr (name i)),
           (''vendor'', JStr (item_vendor i))]"

definition stringify_items :: "cart_item list \<Rightarrow> json" where
  "stringify_items its = JArr (map compact_item its)"

text \<open>
  Lines 250 to 261: the metadata, built before the processor is called; reading a member
  of a missing \<open>customer\<close> or of a missing \<open>customer.address\<close> throws.
\<close>

definition metadata_of :: "cart_item list \<Rightarrow> customer option \<Rightarrow> js_error + session_metadata" where
  "metadata_of its cust =
     (case cust of
        None \<Rightarrow> Inl (TypeError ''name'')
      | Some c \<Rightarrow>
          (case cust_address c of
             None \<Rightarrow> Inl (TypeError ''street'')
           | Some a \<Rightarrow>
               Inr \<lparr>customer_name = cust_name c,
                    customer_email = cust_email c,
                    customer_phone = cust_phone c,
                    shipping_street = addr_street a,
                    shipping_colonia = addr_colonia a,
                    shipping_zip = addr_zip a,
                    shipping_city = addr_city a,
                    shipping_state = addr_state a,
                    shipping_notes = Some (str_or (addr_notes a) []),
                    items_json = Some (stringify_items its)\<rparr>))"

text \<open>
  \<open>createCheckoutSession\<close>: \<open>create\<close> is \<^verbatim>\<open>stripe.checkout.sessions.create\<close>, which
  answers with the session's URL or fails. The second component lists the sessions the
  handler asked the processor to create. The message of the empty cart is the source's,
  without its accents.
\<close>

definition createCheckoutSession ::
  "env \<Rightarrow> string \<Rightarrow> checkout_body \<Rightarrow> (session_params \<Rightarrow> js_error + string)
     \<Rightarrow> 'd response \<times> session_params list" where
  "createCheckoutSession e method b create =
     (if method \<noteq> ''POST'' then (\<lparr>status = 405, body = ErrorMsg ''Method not allowed''\<rparr>, [])
      else if getStripe e = None
      then (\<lparr>status = 500, body = ErrorMsg ''Stripe is not configured in environment variables''\<rparr>, [])
      else (case items b of
          None \<Rightarrow> (\<lparr>status = 400, body = ErrorMsg ''El carrito esta vacio''\<rparr>, [])
        | Some its \<Rightarrow>
            (if length its = 0
             then (\<lparr>status = 400, body = ErrorMsg ''El carrito esta vacio''\<rparr>, [])
             else (case metadata_of its (customer b) of
                 Inl err \<Rightarrow> (\<lparr>status = 500, body = ErrorOf err\<rparr>, [])
               | Inr md \<Rightarrow>
                   (let params =
                      \<lparr>payment_method_types = [''card''],
                       line_items = map line_item_of its,
                       mode = ''payment'',
                       success_url = YOUR_DOMAIN @ ''/order-confirmation.html?session_id={CHECKOUT_SESSION_ID}'',
                       cancel_url = YOUR_DOMAIN @ ''/checkout.html'',
                       submit_type = ''pay'',
                       metadata = md,
                       params_customer_email = customer_email md\<rparr>
                    in (case create params of
                          Inl err \<Rightarrow> (\<lparr>status = 500, body = ErrorOf err\<rparr>, [params])
                        | Inr url \<Rightarrow> (\<lparr>status = 200, body = Url url\<rparr>, [params])))))))"

section \<open>Payments: completion webhook\<close>

text \<open>The object of a processor event, \<^verbatim>\<open>event.data.object\<close>, and the event.\<close>

record checkout_session =
  session_id :: string
  payment_intent :: "string option"
  amount_total :: jsnum
  session_metadata :: "session_metadata option"

record stripe_event =
  event_type :: string
  event_object :: checkout_session

record customer_info =
  info_name :: "string option"
  info_email :: "string option"
  info_phone :: "string option"

record shipping_address =
  ship_street :: "string option"
  ship_colonia :: "string option"
  ship_zip :: "string option"
  ship_city :: "string option"
  ship_state :: "string option"
  ship_notes :: "string option"

record order =
  stripeSessionId :: string
  paymentIntentId :: "string option"
  amountTotal :: jsnum
  order_status :: string
  createdAt :: int
  customerInfo :: customer_info
  shippingAddress :: shipping_address
  order_items :: json
  ingramStatus :: string

text \<open>
  Lines 305 to 326: the document handed to the store. Building it throws when the
  session has no metadata and when \<open>items_json\<close> does not parse.
\<close>

definition order_of :: "int \<Rightarrow> checkout_session \<Rightarrow> js_error + order" where
  "order_of now session =
     (case session_metadata session of
        None \<Rightarrow> Inl (TypeError ''customer_name'')
      | Some md \<Rightarrow>
          (case JSON_parse (items_json md) of
             Inl err \<Rightarrow> Inl err
           | Inr its \<Rightarrow>
               Inr \<lparr>stripeSessionId = session_id session,
                    paymentIntentId = payment_intent session,
                    amountTotal = js_div (amount_total session) (Fin 100),
                    order_status = ''paid'',
                    createdAt = now,
                    customerInfo = \<lparr>info_name = customer_name md,
                                     info_email = customer_email md,
                                     info_phone = customer_phone md\<rparr>,
                    shippingAddress = \<lparr>ship_street = shipping_street md,
                                        ship_colonia = shipping_colonia md,
                                        ship_zip = shipping_zip md,
                                        ship_city = shipping_city md,
                                        ship_state = shipping_state md,
                                        ship_notes = shipping_notes md\<rparr>,
                    order_items = its,
                    ingramStatus = ''pending''\<rparr>))"

text \<open>
  One delivery to \<open>stripeWebhook\<close>: the raw body and the signature header, the server
  timestamp, and the error the store raises on this write, if it does.
\<close>

record delivery =
  rawBody :: string
  stripe_signature :: "string option"
  server_time :: int
  write_failure :: "string option"

text \<open>
  \<open>stripeWebhook\<close>: \<open>constructEvent\<close> is \<^verbatim>\<open>stripe.webhooks.constructEvent\<close>, which
  verifies the signature of the raw body against the endpoint secret and returns the
  event or throws; \<open>orders\<close> is the collection of that name.
\<close>

definition stripeWebhook ::
  "env \<Rightarrow> (string \<Rightarrow> string option \<Rightarrow> string option \<Rightarrow> js_error + stripe_event)
     \<Rightarrow> order list \<Rightarrow> delivery \<Rightarrow> 'd response \<times> order list" where
  "stripeWebhook e constructEvent orders req =
     (if getStripe e = None then (\<lparr>status = 500, body = PlainText ''Stripe is not configured''\<rparr>, orders)
      else (case constructEvent (rawBody req) (stripe_signature req) (STRIPE_WEBHOOK_SECRET e) of
          Inl err \<Rightarrow> (\<lparr>status = 400, body = ErrorOf err\<rparr>, orders)
        | Inr event \<Rightarrow>
            (if event_type event = ''checkout.session.completed''
             then (case order_of (server_time req) (event_object event) of
                 Inl err \<Rightarrow> (\<lparr>status = 500, body = ErrorOf err\<rparr>, orders)
               | Inr doc \<Rightarrow>
                   (case write_failure req of
                      Some msg \<Rightarrow> (\<lparr>status = 500, body = ErrorOf (External msg)\<rparr>, orders)
                    | None \<Rightarrow> (\<lparr>status = 200, body = Received\<rparr>, orders @ [doc])))
             else (\<lparr>status = 200, body = Received\<rparr>, orders))))"

text \<open>Deliveries handled one after the other, each on the store the previous one left.\<close>

fun deliver_all ::
  "env \<Rightarrow> (string \<Rightarrow> string option \<Rightarrow> string option \<Rightarrow> js_error + stripe_event)
     \<Rightarrow> order list \<Rightarrow> delivery list \<Rightarrow> 'd response list \<times> order list" where
  "deliver_all e constructEvent orders [] = ([], orders)"
| "deliver_all e constructEvent orders (req # reqs) =
     (let (r, orders') = stripeWebhook e constructEvent orders req;
          (rs, orders'') = deliver_all e constructEvent orders' reqs
      in (r # rs, orders''))"

definition orders_of_session :: "string \<Rightarrow> order list \<Rightarrow> order list" where
  "orders_of_session sid orders = filter (\<lambda>doc. stripeSessionId doc = sid) orders"

section \<open>Cart items read back from an order\<close>




section \<open>Concrete inputs\<close>

definition shop_env :: env where
  "shop_env = \<lparr>INGRAM_CLIENT_ID = Some ''id'', INGRAM_CLIENT_SECRET = Some ''secret'',
     INGRAM_SECRET_KEY = Some ''key'', INGRAM_CUSTOMER_NUMBER = None, INGRAM_COUNTRY_CODE = None,
     STRIPE_SECRET_KEY = Some ''sk_test'', STRIPE_WEBHOOK_SECRET = Some ''whsec''\<rparr>"

definition query_negative :: search_query where
  "query_negative = \<lparr>q_keyword = Some ''ssd'', q_vendor = None,
     q_pageNumber = Some ''-5'', q_pageSize = Some ''-3''\<rparr>"

definition query_large :: search_query where
  "query_large = \<lparr>q_keyword = Some ''ssd'', q_vendor = None,
     q_pageNumber = None, q_pageSize = Some ''250''\<rparr>"

definition query_padded :: search_query where
  "query_padded = \<lparr>q_keyword = Some ''ssd'', q_vendor = None,
     q_pageNumber = Some (CHR 0xC2 # CHR 0xA0 # ''7''), q_pageSize = Some ''abc''\<rparr>"

definition token_ok :: "int \<times> token_reply" where
  "token_ok = (1, Inr \<lparr>access_token = Some ''T'', expires_in = 3600\<rparr>)"

definition skus_of :: "nat \<Rightarrow> json list" where
  "skus_of n = replicate n (JStr ''SKU'')"

definition event_order_status :: json where
  "event_order_status = JObj [(''topic'', JStr ''OrderStatus''), (''orderNumber'', JStr ''20-12345'')]"

definition widget :: cart_item where
  "widget = \<lparr>sku = ''A1'', name = ''Widget'', item_vendor = ''Acme'',
     price = fl64 (19995 / 1000), quantity = Fin 2\<rparr>"

definition gadget :: cart_item where
  "gadget = \<lparr>sku = ''B2'', name = ''Gadget'', item_vendor = ''Acme'',
     price = fl64 (2675 / 1000), quantity = Fin 1\<rparr>"

definition trinket :: cart_item where
  "trinket = \<lparr>sku = ''C3'', name = ''Trinket'', item_vendor = ''Acme'',
     price = fl64 (1005 / 1000), quantity = Fin 1\<rparr>"

definition alice :: customer where
  "alice = \<lparr>cust_name = Some ''Alice'', cust_email = Some ''alice@example.com'',
     cust_phone = Some ''555-0100'',
     cust_address = Some \<lparr>addr_street = Some ''1 Main St'', addr_colonia = Some ''Centro'',
       addr_zip = Some ''01000'', addr_city = Some ''CDMX'', addr_state = Some ''CDMX'',
       addr_notes = None\<rparr>\<rparr>"

definition widget_metadata :: session_metadata where
  "widget_metadata =
     \<lparr>customer_name = Some ''Alice'', customer_email = Some ''alice@example.com'',
      customer_phone = Some ''555-0100'', shipping_street = Some ''1 Main St'',
      shipping_colonia = Some ''Centro'', shipping_zip = Some ''01000'',
      shipping_city = Some ''CDMX'', shipping_state = Some ''CDMX'', shipping_notes = Some [],
      items_json = Some (JArr [JObj [(''sku'', JStr ''A1''), (''qty'', JNum 2),
        (''price'', JNum (5628092159329567 / 281474976710656)), (''name'', JStr ''Widget''),
        (''vendor'', JStr ''Acme'')]])\<rparr>"


definition create_ok :: "session_params \<Rightarrow> js_error + string" where
  "create_ok params = Inr ''https://checkout.stripe.com/c/pay/cs_test_1''"

definition session_paid :: checkout_session where
  "session_paid = \<lparr>session_id = ''sess_123'', payment_intent = Some ''pi_1'',
     amount_total = Fin 4000, session_metadata = Some widget_metadata\<rparr>"

definition session_foreign :: checkout_session where
  "session_foreign = \<lparr>session_id = ''sess_456'', payment_intent = Some ''pi_2'',
     amount_total = Fin 1500,
     session_metadata = Some \<lparr>customer_name = None, customer_email = None,
       customer_phone = None, shipping_street = None, shipping_colonia = None,
       shipping_zip = None, shipping_city = None, shipping_state = None,
       shipping_notes = None, items_json = None\<rparr>\<rparr>"

definition verify_stub :: "string \<Rightarrow> string option \<Rightarrow> string option \<Rightarrow> js_error + stripe_event" where
  "verify_stub raw sig secret =
     (if sig \<noteq> Some ''t=1,v1=valid'' then Inl (External ''No signatures found matching the expected signature for payload'')
      else if raw = ''completed sess_123''
      then Inr \<lparr>event_type = ''checkout.session.completed'', event_object = session_paid\<rparr>
      else if raw = ''completed sess_456''
      then Inr \<lparr>event_type = ''checkout.session.completed'', event_object = session_foreign\<rparr>
      else Inr \<lparr>event_type = ''payment_intent.created'', event_object = session_paid\<rparr>)"

definition delivery_paid :: "int \<Rightarrow> delivery" where
  "delivery_paid t = \<lparr>rawBody = ''completed sess_123'', stripe_signature = Some ''t=1,v1=valid'',
     server_time = t, write_failure = None\<rparr>"

definition delivery_foreign :: delivery where
  "delivery_foreign = \<lparr>rawBody = ''completed sess_456'', stripe_signature = Some ''t=1,v1=valid'',
     server_time = 1700, write_failure = None\<rparr>"

definition delivery_forged :: delivery where
  "delivery_forged = \<lparr>rawBody = ''completed sess_123'', stripe_signature = Some ''t=1,v1=forged'',
     server_time = 1700, write_failure = None\<rparr>"

definition order_paid :: "int \<Rightarrow> order" where
  "order_paid t =
     \<lparr>stripeSessionId = ''sess_123'', paymentIntentId = Some ''pi_1'', amountTotal = Fin 40,
      order_status = ''paid'', createdAt = t,
      customerInfo = \<lparr>info_name = Some ''Alice'', info_email = Some ''alice@example.com'',
        info_phone = Some ''555-0100''\<rparr>,
      shippingAddress = \<lparr>ship_street = Some ''1 Main St'', ship_colonia = Some ''Centro'',
        ship_zip = Some ''01000'', ship_city = Some ''CDMX'', ship_state = Some ''CDMX'',
        ship_notes = Some []\<rparr>,
      order_items = JArr [JObj [(''sku'', JStr ''A1''), (''qty'', JNum 2),
        (''price'', JNum (5628092159329567 / 281474976710656)), (''name'', JStr ''Widget''),
        (''vendor'', JStr ''Acme'')]],
      ingramStatus = ''pending''\<rparr>"

section \<open>The number model\<close>

text \<open>
  The exponent found by \<open>ilog2\<close> is the binary exponent, so \<open>fl64\<close> returns a multiple of
  the quantum of its argument with a significand of at most 53 bits, no further than half
  a quantum away.
\<close>

lemma bit_length_bounds:
  "0 < n \<Longrightarrow> 0 < bit_length n \<and> 2 ^ nat (bit_length n - 1) \<le> n \<and> n < 2 ^ nat (bit_length n)"
proof (induction n rule: bit_length.induct)
  case (1 n)
  show ?case
  proof (cases "n div 2 = 0")
    case True
    with "1.prems" have "n = 1" by presburger
    then show ?thesis by (simp add: bit_length.simps [of 1] bit_length.simps [of 0])
  next
    case False
    with "1.prems" have m: "0 < n div 2" by presburger
    from "1.prems" have "\<not> n \<le> 0" by simp
    from "1.IH" [OF this m] have b: "0 < bit_length (n div 2)"
      and lo: "2 ^ nat (bit_length (n div 2) - 1) \<le> n div 2"
      and hi: "n div 2 < 2 ^ nat (bit_length (n div 2))"
      by simp_all
    have eq: "bit_length n = 1 + bit_length (n div 2)"
      using "1.prems" by (simp add: bit_length.simps [of n])
    from b have s: "nat (bit_length (n div 2)) = Suc (nat (bit_length (n div 2) - 1))"
      by simp
    have "2 ^ nat (bit_length (n div 2)) \<le> 2 * (n div 2)"
      using lo by (simp add: s)
    then have lo': "2 ^ nat (bit_length n - 1) \<le> n"
      by (simp add: eq; presburger)
    have "2 * (n div 2) + 1 < 2 * 2 ^ nat (bit_length (n div 2))"
      using hi by simp
    moreover have "nat (bit_length n) = Suc (nat (bit_length (n div 2)))"
      using b by (simp add: eq)
    ultimately have hi': "n < 2 ^ nat (bit_length n)"
      by (simp; presburger)
    from b lo' hi' show ?thesis by (simp add: eq)
  qed
qed

lemma pow2_powi: "pow2 k = 2 powi k"
  by (simp add: pow2_def power_int_def field_simps)

lemma pow2_pos: "0 < pow2 k"
  by (simp add: pow2_powi)

lemma pow2_add: "pow2 (a + b) = pow2 a * pow2 b"
  by (simp add: pow2_powi power_int_add)

lemma pow2_nat: "0 \<le> k \<Longrightarrow> pow2 k = of_int (2 ^ nat k)"
  by (simp add: pow2_def)

lemma ilog2_bounds:
  assumes "0 < x"
  shows "pow2 (ilog2 x) \<le> x \<and> x < pow2 (ilog2 x + 1)"
proof -
  obtain p q where pq: "quotient_of x = (p, q)" by (cases "quotient_of x")
  then have q: "0 < q" by (rule quotient_of_denom_pos)
  from pq have x: "x = of_int p / of_int q" by (rule quotient_of_div)
  with assms q have p: "0 < p" by (simp add: zero_less_divide_iff)
  define bp where "bp = bit_length p"
  define bq where "bq = bit_length q"
  from bit_length_bounds [OF p] have bp: "0 < bp" "2 ^ nat (bp - 1) \<le> p" "p < 2 ^ nat bp"
    by (simp_all add: bp_def)
  from bit_length_bounds [OF q] have bq: "0 < bq" "2 ^ nat (bq - 1) \<le> q" "q < 2 ^ nat bq"
    by (simp_all add: bq_def)
  have plo: "pow2 (bp - 1) \<le> of_int p"
    using bp by (simp add: pow2_nat; metis of_int_le_iff of_int_numeral of_int_power)
  have phi: "of_int p < pow2 bp"
    using bp by (simp add: pow2_nat; metis of_int_less_iff of_int_numeral of_int_power)
  have qlo: "pow2 (bq - 1) \<le> of_int q"
    using bq by (simp add: pow2_nat; metis of_int_le_iff of_int_numeral of_int_power)
  have qhi: "of_int q < pow2 bq"
    using bq by (simp add: pow2_nat; metis of_int_less_iff of_int_numeral of_int_power)
  have qpos: "(0::rat) < of_int q" using q by simp
  have upper: "x < pow2 (bp - bq + 1)"
  proof -
    have "pow2 (bp - bq + 1) * pow2 (bq - 1) = pow2 bp"
      by (simp flip: pow2_add)
    then have "of_int p < pow2 (bp - bq + 1) * pow2 (bq - 1)" using phi by simp
    also have "\<dots> \<le> pow2 (bp - bq + 1) * of_int q"
      using qlo pow2_pos [of "bp - bq + 1"] by (simp add: mult_left_mono)
    finally show ?thesis using qpos by (simp add: x pos_divide_less_eq)
  qed
  have lower: "pow2 (bp - bq - 1) < x"
  proof -
    have "pow2 (bp - bq - 1) * pow2 bq = pow2 (bp - 1)"
      by (simp flip: pow2_add)
    have "pow2 (bp - bq - 1) * of_int q < pow2 (bp - bq - 1) * pow2 bq"
      using qhi pow2_pos [of "bp - bq - 1"] by (simp add: mult_strict_left_mono)
    also have "\<dots> = pow2 (bp - 1)" by (simp flip: pow2_add)
    also have "\<dots> \<le> of_int p" by (rule plo)
    finally show ?thesis using qpos by (simp add: x pos_less_divide_eq)
  qed
  show ?thesis
  proof (cases "pow2 (bp - bq) \<le> x")
    case True
    then have "ilog2 x = bp - bq" by (simp add: ilog2_def pq bp_def bq_def)
    with True upper show ?thesis by simp
  next
    case False
    then have "ilog2 x = bp - bq - 1" by (simp add: ilog2_def pq bp_def bq_def)
    with False lower show ?thesis by simp
  qed
qed

lemma round_half_even_near: "\<bar>of_int (round_half_even z) - z\<bar> \<le> 1 / 2"
proof -
  have "of_int \<lfloor>z\<rfloor> \<le> z" and "z < of_int \<lfloor>z\<rfloor> + 1" by linarith+
  then show ?thesis
    by (auto simp: round_half_even_def Let_def)
qed

lemma fl64_nearest:
  assumes "x \<noteq> 0" and "fl64 x = Fin y"
  shows "\<bar>y - x\<bar> \<le> pow2 (max (ilog2 \<bar>x\<bar>) (- 1022) - 53) \<and>
         (\<exists>m. y = of_int m * pow2 (max (ilog2 \<bar>x\<bar>) (- 1022) - 52) \<and> \<bar>m\<bar> \<le> 2 ^ 53)"
proof -
  define a where "a = \<bar>x\<bar>"
  define e where "e = max (ilog2 a) (- 1022)"
  define q where "q = pow2 (e - 52)"
  define m where "m = round_half_even (a / q)"
  have a: "0 < a" using assms(1) by (simp add: a_def)
  have q: "0 < q" by (simp add: q_def pow2_pos)
  have half: "pow2 (e - 53) = q / 2"
  proof -
    have "pow2 (e - 53 + 1) = pow2 (e - 53) * pow2 1" by (rule pow2_add)
    then show ?thesis by (simp add: q_def pow2_def)
  qed
  have near: "\<bar>of_int m * q - a\<bar> \<le> q / 2"
  proof -
    have "\<bar>of_int m - a / q\<bar> \<le> 1 / 2" unfolding m_def by (rule round_half_even_near)
    then have "\<bar>of_int m - a / q\<bar> * q \<le> 1 / 2 * q" using q by (simp add: mult_right_mono)
    moreover have "\<bar>of_int m - a / q\<bar> * q = \<bar>(of_int m - a / q) * q\<bar>"
      using q by (simp add: abs_mult)
    moreover have "(of_int m - a / q) * q = of_int m * q - a"
      using q by (simp add: left_diff_distrib)
    ultimately show ?thesis by simp
  qed
  have m_nonneg: "0 \<le> m"
  proof -
    have "0 \<le> a / q" using a q by simp
    then have "0 \<le> \<lfloor>a / q\<rfloor>" by simp
    then show ?thesis by (auto simp: m_def round_half_even_def Let_def)
  qed
  have m_le: "m \<le> 2 ^ 53"
  proof -
    have "a < pow2 (ilog2 a + 1)" using ilog2_bounds [OF a] by simp
    also have "ilog2 a + 1 \<le> e + 1" by (simp add: e_def)
    then have "pow2 (ilog2 a + 1) \<le> pow2 (e + 1)"
      by (simp add: pow2_powi power_int_increasing)
    also have "pow2 (e + 1) = pow2 53 * q"
    proof -
      have "e + 1 = 53 + (e - 52)" by simp
      then show ?thesis unfolding q_def by (simp only: pow2_add)
    qed
    finally have "a / q < pow2 53" using q by (simp add: pos_divide_less_eq)
    then have az: "a / q < of_int (2 ^ 53)" by (simp add: pow2_def)
    have "of_int m \<le> a / q + 1 / 2"
      using round_half_even_near [of "a / q"] unfolding m_def by linarith
    with az have "(of_int m :: rat) < of_int (2 ^ 53) + 1 / 2" by linarith
    then have "(of_int m :: rat) < of_int (2 ^ 53 + 1)" by simp
    then have "m < 2 ^ 53 + 1" by (simp only: of_int_less_iff)
    then show ?thesis by simp
  qed
  from assms have y: "y = (if 0 < x then of_int m * q else - (of_int m * q))"
    by (auto simp: fl64_def Let_def a_def e_def q_def m_def split: if_splits)
  have bound: "\<bar>m\<bar> \<le> 2 ^ 53" and bound': "\<bar>- m\<bar> \<le> 2 ^ 53"
    using m_nonneg m_le by simp_all
  have res: "\<bar>y - x\<bar> \<le> pow2 (e - 53) \<and> (\<exists>k. y = of_int k * pow2 (e - 52) \<and> \<bar>k\<bar> \<le> 2 ^ 53)"
  proof (cases "0 < x")
    case True
    with y near have "\<bar>y - x\<bar> \<le> q / 2" by (simp add: a_def)
    then have "\<bar>y - x\<bar> \<le> pow2 (e - 53)" by (simp only: half)
    moreover from True y have "y = of_int m * pow2 (e - 52)" by (simp add: q_def)
    ultimately show ?thesis using bound by (intro conjI exI [of _ m])
  next
    case False
    with assms(1) have neg: "x < 0" by simp
    then have "a = - x" by (simp add: a_def)
    with y False near have "\<bar>y - x\<bar> \<le> q / 2" by (simp add: abs_minus_commute add.commute)
    then have "\<bar>y - x\<bar> \<le> pow2 (e - 53)" by (simp only: half)
    moreover from False y have "y = of_int (- m) * pow2 (e - 52)" by (simp add: q_def)
    ultimately show ?thesis using bound' by (intro conjI exI [of _ "- m"])
  qed
  then show ?thesis unfolding e_def a_def .
qed

section \<open>The credential cache\<close>

text \<open>
  Calls that all find no valid token each start an exchange of their own: the schedule
  ends with one more exchange in flight per call and the cache as it was.
\<close>

lemma tok_run_calls:
  "\<forall>ev\<in>set evs. is_call_at_miss (cache s) ev \<Longrightarrow>
   tok_run s evs = s\<lparr>waiting := waiting s @ map caller evs, exchanges := exchanges s + length evs\<rparr>"
proof (induction evs arbitrary: s)
  case Nil
  then show ?case by (simp add: tok_run_def)
next
  case (Cons ev evs)
  from Cons.prems obtain i t where ev: "ev = Call i t" and miss: "\<not> token_valid (cache s) t"
    by (cases ev) auto
  let ?s = "tok_step s ev"
  have step: "?s = s\<lparr>waiting := waiting s @ [i], exchanges := Suc (exchanges s)\<rparr>"
    using ev miss by simp
  then have "cache ?s = cache s" by simp
  with Cons.prems have "\<forall>ev\<in>set evs. is_call_at_miss (cache ?s) ev" by simp
  then have "tok_run ?s evs = ?s\<lparr>waiting := waiting ?s @ map caller evs, exchanges := exchanges ?s + length evs\<rparr>"
    by (rule Cons.IH)
  moreover have "tok_run s (ev # evs) = tok_run ?s evs" by (simp add: tok_run_def)
  ultimately show ?case using step ev by simp
qed

text \<open>
  C2, as the code has it. \<open>getAccessToken\<close> holds no handle of a pending exchange: of N
  calls made while no valid token is cached, each one starts a credential exchange of
  its own, so N exchanges are in flight. The reply to an exchange settles the call that
  started it: a successful reply resolves it with the token of that reply, which is also
  stored, and a failed reply rejects it with the error of that reply and leaves the cache
  as it was.
\<close>

theorem getAccessToken_concurrent_calls:
  "((\<forall>ev\<in>set evs. is_call_at_miss (cache s) ev) \<longrightarrow>
      exchanges (tok_run s evs) = exchanges s + length evs \<and>
      waiting (tok_run s evs) = waiting s @ map caller evs \<and>
      cache (tok_run s evs) = cache s \<and>
      settled (tok_run s evs) = settled s) \<and>
   (i \<in> set (waiting s) \<longrightarrow>
      settled (tok_step s (Reply i t (Inr d))) = settled s @ [(i, Inr (access_token d))] \<and>
      cachedToken (cache (tok_step s (Reply i t (Inr d)))) = access_token d \<and>
      settled (tok_step s (Reply i t (Inl err))) = settled s @ [(i, Inl (AuthError err))] \<and>
      cache (tok_step s (Reply i t (Inl err))) = cache s)"
proof (intro conjI impI)
  assume a: "\<forall>ev\<in>set evs. is_call_at_miss (cache s) ev"
  show "exchanges (tok_run s evs) = exchanges s + length evs" by (simp add: tok_run_calls [OF a])
  show "waiting (tok_run s evs) = waiting s @ map caller evs" by (simp add: tok_run_calls [OF a])
  show "cache (tok_run s evs) = cache s" by (simp add: tok_run_calls [OF a])
  show "settled (tok_run s evs) = settled s" by (simp add: tok_run_calls [OF a])
next
  assume i: "i \<in> set (waiting s)"
  then show "settled (tok_step s (Reply i t (Inr d))) = settled s @ [(i, Inr (access_token d))]"
    by (simp add: token_callback_def)
  from i show "cachedToken (cache (tok_step s (Reply i t (Inr d)))) = access_token d"
    by (simp add: token_callback_def)
  from i show "settled (tok_step s (Reply i t (Inl err))) = settled s @ [(i, Inl (AuthError err))]"
    by (simp add: token_callback_def)
  from i show "cache (tok_step s (Reply i t (Inl err))) = cache s"
    by (simp add: token_callback_def)
qed

theorem getAccessToken_concurrent_calls_witness:
  "is_call_at_miss (cache cold_start) (Call 0 0) \<and>
   is_call_at_miss (cache cold_start) (Call 1 0) \<and>
   is_call_at_miss (cache cold_start) (Call 2 1) \<and>
   exchanges (tok_run cold_start [Call 0 0, Call 1 0, Call 2 1]) = 3 \<and>
   waiting (tok_run cold_start [Call 0 0, Call 1 0, Call 2 1]) = [0, 1, 2] \<and>
   1 \<in> set (waiting (tok_run cold_start [Call 0 0, Call 1 0])) \<and>
   settled (tok_step (tok_run cold_start [Call 0 0, Call 1 0])
              (Reply 1 7 (Inr \<lparr>access_token = Some ''B'', expires_in = 3600\<rparr>)))
     = [(1, Inr (Some ''B''))] \<and>
   settled (tok_step (tok_run cold_start [Call 0 0, Call 1 0])
              (Reply 1 7 (Inl (External ''invalid_client''))))
     = [(1, Inl (AuthError (External ''invalid_client'')))] \<and>
   cache (tok_step (tok_run cold_start [Call 0 0, Call 1 0])
              (Reply 1 7 (Inl (External ''invalid_client'')))) = initial_cache"
  using getAccessToken_concurrent_calls [of "[Call 0 0, Call 1 0, Call 2 1]" cold_start]
        getAccessToken_concurrent_calls [of "[]" "tok_run cold_start [Call 0 0, Call 1 0]" 1 7
           "\<lparr>access_token = Some ''B'', expires_in = 3600\<rparr>" "External ''invalid_client''"]
  by (simp add: cold_start_def initial_cache_def token_valid_def str_truthy_def tok_run_def
        token_callback_def)

text \<open>
  C2 as stated fails: two calls on a cold cache make two exchanges, and the two callers
  receive the tokens of two different replies.
\<close>

theorem getAccessToken_single_flight_counterexample:
  "exchanges (tok_run cold_start [Call 0 0, Call 1 0]) = 2 \<and>
   settled (tok_run cold_start
      [Call 0 0, Call 1 0,
       Reply 0 5 (Inr \<lparr>access_token = Some ''A'', expires_in = 3600\<rparr>),
       Reply 1 6 (Inr \<lparr>access_token = Some ''B'', expires_in = 3600\<rparr>)])
     = [(0, Inr (Some ''A'')), (1, Inr (Some ''B''))]"
  by (simp add: cold_start_def initial_cache_def token_valid_def str_truthy_def tok_run_def
        token_callback_def)

text \<open>
  C4, as the code has it. A cached, non-empty token is returned with no upstream call
  while the clock is before the stored expiry; otherwise exactly one credential exchange
  is made, and on its success the token of the reply is returned and stored with an
  expiry of the clock at the reply plus 3300000 ms (55 minutes), whatever validity
  window the reply declares. A token is served from the cache only before its expiry.
\<close>

theorem getAccessToken_cache:
  "(token_valid c now \<longrightarrow> getAccessToken e c now net = (Inr (cachedToken c), c, [])) \<and>
   (\<not> token_valid c now \<longrightarrow>
      snd (snd (getAccessToken e c now net))
        = [Accesstoken (INGRAM_CLIENT_ID e) (INGRAM_CLIENT_SECRET e)]) \<and>
   (\<not> token_valid c now \<longrightarrow> snd net = Inr d \<longrightarrow>
      fst (getAccessToken e c now net) = Inr (access_token d) \<and>
      cachedToken (fst (snd (getAccessToken e c now net))) = access_token d \<and>
      tokenExpiry (fst (snd (getAccessToken e c now net))) = fst net + 3300000) \<and>
   (snd (snd (getAccessToken e c now net)) = [] \<longrightarrow> now < tokenExpiry c)"
  by (auto simp: getAccessToken_def token_callback_def token_valid_def split: sum.splits prod.splits)

theorem getAccessToken_cache_witness:
  "token_valid \<lparr>cachedToken = Some ''T'', tokenExpiry = 100\<rparr> 99 \<and>
   getAccessToken shop_env \<lparr>cachedToken = Some ''T'', tokenExpiry = 100\<rparr> 99
       (120, Inr \<lparr>access_token = Some ''U'', expires_in = 7200\<rparr>)
     = (Inr (Some ''T''), \<lparr>cachedToken = Some ''T'', tokenExpiry = 100\<rparr>, []) \<and>
   \<not> token_valid \<lparr>cachedToken = Some ''T'', tokenExpiry = 100\<rparr> 100 \<and>
   getAccessToken shop_env \<lparr>cachedToken = Some ''T'', tokenExpiry = 100\<rparr> 100
       (120, Inr \<lparr>access_token = Some ''U'', expires_in = 7200\<rparr>)
     = (Inr (Some ''U''), \<lparr>cachedToken = Some ''U'', tokenExpiry = 3300120\<rparr>,
        [Accesstoken (Some ''id'') (Some ''secret'')])"
  using getAccessToken_cache [of "\<lparr>cachedToken = Some ''T'', tokenExpiry = 100\<rparr>" 99 shop_env
          "(120, Inr \<lparr>access_token = Some ''U'', expires_in = 7200\<rparr>)"]
        getAccessToken_cache [of "\<lparr>cachedToken = Some ''T'', tokenExpiry = 100\<rparr>" 100 shop_env
          "(120, Inr \<lparr>access_token = Some ''U'', expires_in = 7200\<rparr>)"
          "\<lparr>access_token = Some ''U'', expires_in = 7200\<rparr>"]
  by (simp add: getAccessToken_def token_callback_def token_valid_def str_truthy_def shop_env_def)

text \<open>
  C4 as stated fails: for a reply that declares a validity window of 7200 s, the stored
  expiry is 55 minutes after the reply, not the window less a margin of 5 minutes.
\<close>

theorem getAccessToken_expiry_counterexample:
  "tokenExpiry (fst (snd (getAccessToken shop_env initial_cache 0
      (0, Inr \<lparr>access_token = Some ''T'', expires_in = 7200\<rparr>)))) = 3300000 \<and>
   tokenExpiry (fst (snd (getAccessToken shop_env initial_cache 0
      (0, Inr \<lparr>access_token = Some ''T'', expires_in = 7200\<rparr>)))) \<noteq> 0 + 7200 * 1000 - 5 * 60 * 1000"
  by (simp add: getAccessToken_def token_callback_def token_valid_def str_truthy_def
        initial_cache_def)

section \<open>The distributor gateway\<close>

text \<open>
  \<open>parseInt\<close> yields \<open>NaN\<close> or the binary64 value nearest to an integer, and that
  value is an integer again: a positive result is at least 1.
\<close>

lemma round_half_even_of_int: "round_half_even (of_int k) = k"
  by (simp add: round_half_even_def)

lemma fl64_of_int_integral:
  assumes "fl64 (of_int n) = Fin r"
  shows "\<exists>m::int. r = of_int m"
proof (cases "n = 0")
  case True
  with assms show ?thesis by (auto simp: fl64_def intro: exI [of _ 0])
next
  case False
  define a :: rat where "a = \<bar>of_int n\<bar>"
  define e where "e = max (ilog2 a) (- 1022)"
  define y where "y = of_int (round_half_even (a / pow2 (e - 52))) * pow2 (e - 52)"
  have a_int: "a = of_int \<bar>n\<bar>" by (simp add: a_def)
  have y_int: "\<exists>m::int. y = of_int m"
  proof (cases "0 \<le> e - 52")
    case True
    then have "pow2 (e - 52) = of_int (2 ^ nat (e - 52))" by (simp add: pow2_def)
    then have "y = of_int (round_half_even (a / pow2 (e - 52)) * 2 ^ nat (e - 52))"
      by (simp add: y_def)
    then show ?thesis by blast
  next
    case False
    then have p: "pow2 (e - 52) = 1 / 2 ^ nat (- (e - 52))" by (simp add: pow2_def)
    have "a / pow2 (e - 52) = of_int (\<bar>n\<bar> * 2 ^ nat (- (e - 52)))"
      by (simp add: p a_int)
    then have "round_half_even (a / pow2 (e - 52)) = \<bar>n\<bar> * 2 ^ nat (- (e - 52))"
      by (simp only: round_half_even_of_int)
    then have "y = of_int \<bar>n\<bar>" by (simp add: y_def p)
    then show ?thesis by blast
  qed
  from assms False have "r = y \<or> r = - y"
    by (auto simp: fl64_def Let_def a_def e_def y_def split: if_splits)
  with y_int show ?thesis
    by (metis of_int_minus)
qed

lemma NaN_or_fl64_integral:
  "(if b then NaN else fl64 (of_int n)) = Fin r \<Longrightarrow> \<exists>m::int. r = of_int m"
  by (auto split: if_splits dest: fl64_of_int_integral)

lemma parseInt_integral: "parseInt v = Fin r \<Longrightarrow> \<exists>m::int. r = of_int m"
  unfolding parseInt_def Let_def by (rule NaN_or_fl64_integral)

lemma positive_parseInt_ge_1:
  "js_less (Fin 0) (parseInt v) \<Longrightarrow> \<not> js_less (parseInt v) (Fin 1)"
proof (cases "parseInt v")
  case (Fin r)
  assume "js_less (Fin 0) (parseInt v)"
  with Fin have pos: "0 < r" by (simp add: js_less_def)
  from Fin obtain m :: int where "r = of_int m" using parseInt_integral by blast
  with pos have "1 \<le> r" by simp
  with Fin show ?thesis by (simp add: js_less_def)
qed (simp_all add: js_less_def)

lemma pageNumber_opts:
  "pageNumber (search_opts_of q) =
     (if parseInt (q_pageNumber q) = NaN \<or> parseInt (q_pageNumber q) = Fin 0 then Fin 1
      else parseInt (q_pageNumber q))"
  by (simp add: search_opts_of_def num_or_def num_truthy_def)

lemma pageSize_opts:
  "pageSize (search_opts_of q) =
     (if parseInt (q_pageSize q) = NaN \<or> parseInt (q_pageSize q) = Fin 0 then Fin 24
      else if js_less (Fin 100) (parseInt (q_pageSize q)) then Fin 100
      else parseInt (q_pageSize q))"
  by (simp add: search_opts_of_def num_or_def num_truthy_def Math_min_def js_less_def)

lemma parseInt_undefined: "parseInt None = NaN"
  by code_simp

lemma searchProducts_call:
  assumes "method = ''GET''" and "token_valid c t0 \<or> snd net = Inr d"
  shows "last (snd (snd (searchProducts e c method q t0 net t1 reply)))
           = Productsearch (IM_CUSTOMER_NUM e) (IM_COUNTRY_CODE e) (''pandishu-search-'', t1)
               (search_opts_of q)"
  using assms
  by (auto simp: searchProducts_def getApiClient_def getAccessToken_def token_callback_def
        Let_def split: sum.splits prod.splits)

text \<open>
  C8, as the code has it. The product search sent upstream carries a page number that is
  1 when the parameter is absent, does not parse or parses to 0, and the parsed integer
  otherwise: at least 1 whenever that integer is positive, and passed through unchanged
  when it is negative. The page size is 24 when the parameter is absent, does not parse
  or parses to 0; it never exceeds 100, a parsed value above 100 being clamped to 100
  and not rejected; it is at least 1 whenever the parsed integer is positive.
\<close>

theorem searchProducts_paging:
  assumes "method = ''GET''" and "token_valid c t0 \<or> snd net = Inr d"
  shows "\<exists>opts.
     last (snd (snd (searchProducts e c method q t0 net t1 reply)))
       = Productsearch (IM_CUSTOMER_NUM e) (IM_COUNTRY_CODE e) (''pandishu-search-'', t1) opts \<and>
     (q_pageNumber q = None \<longrightarrow> pageNumber opts = Fin 1) \<and>
     (q_pageSize q = None \<longrightarrow> pageSize opts = Fin 24) \<and>
     pageNumber opts =
       (if parseInt (q_pageNumber q) = NaN \<or> parseInt (q_pageNumber q) = Fin 0 then Fin 1
        else parseInt (q_pageNumber q)) \<and>
     (js_less (Fin 0) (parseInt (q_pageNumber q)) \<longrightarrow> \<not> js_less (pageNumber opts) (Fin 1)) \<and>
     pageSize opts \<noteq> NaN \<and>
     pageSize opts =
       (if parseInt (q_pageSize q) = NaN \<or> parseInt (q_pageSize q) = Fin 0 then Fin 24
        else if js_less (Fin 100) (parseInt (q_pageSize q)) then Fin 100
        else parseInt (q_pageSize q)) \<and>
     \<not> js_less (Fin 100) (pageSize opts) \<and>
     (js_less (Fin 100) (parseInt (q_pageSize q)) \<longrightarrow> pageSize opts = Fin 100) \<and>
     (js_less (Fin 0) (parseInt (q_pageSize q)) \<longrightarrow> \<not> js_less (pageSize opts) (Fin 1))"
proof (intro exI conjI impI)
  show "last (snd (snd (searchProducts e c method q t0 net t1 reply)))
       = Productsearch (IM_CUSTOMER_NUM e) (IM_COUNTRY_CODE e) (''pandishu-search-'', t1)
           (search_opts_of q)"
    using assms by (rule searchProducts_call)
  show "pageNumber (search_opts_of q) = Fin 1" if "q_pageNumber q = None"
    using that by (simp add: pageNumber_opts parseInt_undefined)
  show "pageSize (search_opts_of q) = Fin 24" if "q_pageSize q = None"
    using that by (simp add: pageSize_opts parseInt_undefined)
  show "pageNumber (search_opts_of q) =
       (if parseInt (q_pageNumber q) = NaN \<or> parseInt (q_pageNumber q) = Fin 0 then Fin 1
        else parseInt (q_pageNumber q))"
    by (rule pageNumber_opts)
  show "\<not> js_less (pageNumber (search_opts_of q)) (Fin 1)"
    if "js_less (Fin 0) (parseInt (q_pageNumber q))"
    using that positive_parseInt_ge_1 [OF that]
    by (auto simp: pageNumber_opts js_less_def)
  show "pageSize (search_opts_of q) \<noteq> NaN"
    by (simp add: pageSize_opts)
  show "pageSize (search_opts_of q) =
       (if parseInt (q_pageSize q) = NaN \<or> parseInt (q_pageSize q) = Fin 0 then Fin 24
        else if js_less (Fin 100) (parseInt (q_pageSize q)) then Fin 100
        else parseInt (q_pageSize q))"
    by (rule pageSize_opts)
  show "\<not> js_less (Fin 100) (pageSize (search_opts_of q))"
    by (simp add: pageSize_opts js_less_def)
  show "pageSize (search_opts_of q) = Fin 100" if "js_less (Fin 100) (parseInt (q_pageSize q))"
    using that by (auto simp: pageSize_opts js_less_def)
  show "\<not> js_less (pageSize (search_opts_of q)) (Fin 1)"
    if "js_less (Fin 0) (parseInt (q_pageSize q))"
    using that positive_parseInt_ge_1 [OF that]
    by (auto simp: pageSize_opts js_less_def)
qed

lemma parseInt_250: "parseInt (Some ''250'') = Fin 250"
  by code_simp

lemma parseInt_minus_5: "parseInt (Some ''-5'') = Fin (- 5)"
  by code_simp

lemma parseInt_minus_3: "parseInt (Some ''-3'') = Fin (- 3)"
  by code_simp

lemma parseInt_padded_7: "parseInt (Some (CHR 0xC2 # CHR 0xA0 # ''7'')) = Fin 7"
  by code_simp

lemma parseInt_abc: "parseInt (Some ''abc'') = NaN"
  by code_simp

theorem searchProducts_paging_witness:
  "''GET'' = ''GET'' \<and> snd token_ok = Inr \<lparr>access_token = Some ''T'', expires_in = 3600\<rparr> \<and>
   snd (snd (searchProducts shop_env initial_cache ''GET'' query_large 0 token_ok 2 (Inr ())))
     = [Accesstoken (Some ''id'') (Some ''secret''),
        Productsearch ''SBX'' ''US'' (''pandishu-search-'', 2)
          \<lparr>keyword = Some [''ssd''], vendor = None, pageNumber = Fin 1, pageSize = Fin 100\<rparr>] \<and>
   snd (snd (searchProducts shop_env initial_cache ''GET'' query_padded 0 token_ok 2 (Inr ())))
     = [Accesstoken (Some ''id'') (Some ''secret''),
        Productsearch ''SBX'' ''US'' (''pandishu-search-'', 2)
          \<lparr>keyword = Some [''ssd''], vendor = None, pageNumber = Fin 7, pageSize = Fin 24\<rparr>]"
  using searchProducts_paging [of "''GET''" initial_cache 0 token_ok
          "\<lparr>access_token = Some ''T'', expires_in = 3600\<rparr>" shop_env query_large 2 "Inr ()"]
        searchProducts_paging [of "''GET''" initial_cache 0 token_ok
          "\<lparr>access_token = Some ''T'', expires_in = 3600\<rparr>" shop_env query_padded 2 "Inr ()"]
  by (simp add: searchProducts_def getApiClient_def getAccessToken_def token_callback_def
        token_valid_def str_truthy_def initial_cache_def token_ok_def shop_env_def
        IM_CUSTOMER_NUM_def IM_COUNTRY_CODE_def str_or_def search_opts_of_def query_large_def
        query_padded_def parseInt_250 parseInt_padded_7 parseInt_abc parseInt_undefined
        num_or_def num_truthy_def Math_min_def js_less_def)

text \<open>
  C8 as stated fails: \<^verbatim>\<open>pageNumber=-5&pageSize=-3\<close> is sent upstream as page -5
  with page size -3, both below 1.
\<close>

theorem searchProducts_negative_counterexample:
  "snd (snd (searchProducts shop_env initial_cache ''GET'' query_negative 0 token_ok 2 (Inr ())))
     = [Accesstoken (Some ''id'') (Some ''secret''),
        Productsearch ''SBX'' ''US'' (''pandishu-search-'', 2)
          \<lparr>keyword = Some [''ssd''], vendor = None, pageNumber = Fin (- 5), pageSize = Fin (- 3)\<rparr>] \<and>
   js_less (Fin (- 5)) (Fin 1) \<and> js_less (Fin (- 3)) (Fin 1)"
  by (simp add: searchProducts_def getApiClient_def getAccessToken_def token_callback_def
        token_valid_def str_truthy_def initial_cache_def token_ok_def shop_env_def
        IM_CUSTOMER_NUM_def IM_COUNTRY_CODE_def str_or_def search_opts_of_def query_negative_def
        parseInt_minus_5 parseInt_minus_3 num_or_def num_truthy_def Math_min_def js_less_def)

lemma getPriceAndAvailability_rejected:
  assumes "method = ''POST''"
  shows "length xs = 0 \<Longrightarrow>
           getPriceAndAvailability e c method (Some (JArr xs)) t0 net t1 reply
             = (\<lparr>status = 400, body = ErrorMsg ''Se requiere el array skus''\<rparr>, c, [])"
    and "50 < length xs \<Longrightarrow>
           getPriceAndAvailability e c method (Some (JArr xs)) t0 net t1 reply
             = (\<lparr>status = 400, body = ErrorMsg ''Maximo 50 SKUs por peticion''\<rparr>, c, [])"
  using assms by (auto simp: getPriceAndAvailability_def)

lemma getPriceAndAvailability_forwarded:
  assumes "method = ''POST''" and "1 \<le> length xs" and "length xs \<le> 50"
  shows "token_valid c t0 \<Longrightarrow>
           snd (snd (getPriceAndAvailability e c method (Some (JArr xs)) t0 net t1 reply))
             = [Priceandavailability (IM_CUSTOMER_NUM e) (IM_COUNTRY_CODE e) (''pandishu-pa-'', t1)
                  (map (\<lambda>sku. JObj [(''ingramPartNumber'', sku)]) xs)]"
    and "\<not> token_valid c t0 \<Longrightarrow> snd net = Inr d \<Longrightarrow>
           snd (snd (getPriceAndAvailability e c method (Some (JArr xs)) t0 net t1 reply))
             = [Accesstoken (INGRAM_CLIENT_ID e) (INGRAM_CLIENT_SECRET e),
                Priceandavailability (IM_CUSTOMER_NUM e) (IM_COUNTRY_CODE e) (''pandishu-pa-'', t1)
                  (map (\<lambda>sku. JObj [(''ingramPartNumber'', sku)]) xs)]"
    and "\<not> token_valid c t0 \<Longrightarrow> snd net = Inl err \<Longrightarrow>
           snd (snd (getPriceAndAvailability e c method (Some (JArr xs)) t0 net t1 reply))
             = [Accesstoken (INGRAM_CLIENT_ID e) (INGRAM_CLIENT_SECRET e)]"
    and "status (fst (getPriceAndAvailability e c method (Some (JArr xs)) t0 net t1 reply)) \<noteq> 400"
  using assms
  by (auto simp: getPriceAndAvailability_def getApiClient_def getAccessToken_def
        token_callback_def Let_def split: sum.splits prod.splits)

text \<open>
  C7. On a POST request whose \<open>skus\<close> array is empty or longer than 50, the handler
  answers 400 with its validation message, makes no upstream call (neither a credential
  exchange nor a distributor call) and leaves the token cache as it was. An array of 1 to
  50 entries is never answered with 400 and always reaches the upstream: the credential
  exchange when no valid token is cached, and, once a token is at hand, the price and
  availability call carrying every sku in order.
\<close>

theorem getPriceAndAvailability_skus_bounds:
  assumes "method = ''POST''"
  shows
    "(length xs = 0 \<longrightarrow>
        getPriceAndAvailability e c method (Some (JArr xs)) t0 net t1 reply
          = (\<lparr>status = 400, body = ErrorMsg ''Se requiere el array skus''\<rparr>, c, [])) \<and>
     (50 < length xs \<longrightarrow>
        getPriceAndAvailability e c method (Some (JArr xs)) t0 net t1 reply
          = (\<lparr>status = 400, body = ErrorMsg ''Maximo 50 SKUs por peticion''\<rparr>, c, [])) \<and>
     (1 \<le> length xs \<and> length xs \<le> 50 \<longrightarrow>
        status (fst (getPriceAndAvailability e c method (Some (JArr xs)) t0 net t1 reply)) \<noteq> 400 \<and>
        snd (snd (getPriceAndAvailability e c method (Some (JArr xs)) t0 net t1 reply)) \<noteq> [] \<and>
        (token_valid c t0 \<or> (\<exists>d. snd net = Inr d) \<longrightarrow>
           last (snd (snd (getPriceAndAvailability e c method (Some (JArr xs)) t0 net t1 reply)))
             = Priceandavailability (IM_CUSTOMER_NUM e) (IM_COUNTRY_CODE e) (''pandishu-pa-'', t1)
                 (map (\<lambda>sku. JObj [(''ingramPartNumber'', sku)]) xs)))"
proof (intro conjI impI)
  show "getPriceAndAvailability e c method (Some (JArr xs)) t0 net t1 reply
          = (\<lparr>status = 400, body = ErrorMsg ''Se requiere el array skus''\<rparr>, c, [])"
    if "length xs = 0"
    using assms that by (rule getPriceAndAvailability_rejected)
  show "getPriceAndAvailability e c method (Some (JArr xs)) t0 net t1 reply
          = (\<lparr>status = 400, body = ErrorMsg ''Maximo 50 SKUs por peticion''\<rparr>, c, [])"
    if "50 < length xs"
    using assms that by (rule getPriceAndAvailability_rejected)
next
  assume r: "1 \<le> length xs \<and> length xs \<le> 50"
  then have lo: "1 \<le> length xs" and hi: "length xs \<le> 50" by simp_all
  note fw = getPriceAndAvailability_forwarded [OF assms lo hi]
  show "status (fst (getPriceAndAvailability e c method (Some (JArr xs)) t0 net t1 reply)) \<noteq> 400"
    by (rule fw(4))
  show "snd (snd (getPriceAndAvailability e c method (Some (JArr xs)) t0 net t1 reply)) \<noteq> []"
  proof (cases "token_valid c t0")
    case True
    then show ?thesis by (simp add: fw(1))
  next
    case False
    then show ?thesis by (cases "snd net") (simp_all add: fw(2) fw(3))
  qed
  show "last (snd (snd (getPriceAndAvailability e c method (Some (JArr xs)) t0 net t1 reply)))
          = Priceandavailability (IM_CUSTOMER_NUM e) (IM_COUNTRY_CODE e) (''pandishu-pa-'', t1)
              (map (\<lambda>sku. JObj [(''ingramPartNumber'', sku)]) xs)"
    if "token_valid c t0 \<or> (\<exists>d. snd net = Inr d)"
  proof (cases "token_valid c t0")
    case True
    then show ?thesis by (simp add: fw(1))
  next
    case False
    with that obtain d where "snd net = Inr d" by blast
    with False show ?thesis by (simp add: fw(2))
  qed
qed

theorem getPriceAndAvailability_skus_bounds_witness:
  "''POST'' = ''POST'' \<and> length (skus_of 0) = 0 \<and> 50 < length (skus_of 51) \<and>
   1 \<le> length (skus_of 2) \<and> length (skus_of 2) \<le> 50 \<and>
   getPriceAndAvailability shop_env initial_cache ''POST'' (Some (JArr (skus_of 0))) 0 token_ok 2 (Inr ())
     = (\<lparr>status = 400, body = ErrorMsg ''Se requiere el array skus''\<rparr>, initial_cache, []) \<and>
   getPriceAndAvailability shop_env initial_cache ''POST'' (Some (JArr (skus_of 51))) 0 token_ok 2 (Inr ())
     = (\<lparr>status = 400, body = ErrorMsg ''Maximo 50 SKUs por peticion''\<rparr>, initial_cache, []) \<and>
   snd (snd (getPriceAndAvailability shop_env initial_cache ''POST'' (Some (JArr (skus_of 2))) 0 token_ok 2 (Inr ())))
     = [Accesstoken (Some ''id'') (Some ''secret''),
        Priceandavailability ''SBX'' ''US'' (''pandishu-pa-'', 2)
          [JObj [(''ingramPartNumber'', JStr ''SKU'')], JObj [(''ingramPartNumber'', JStr ''SKU'')]]]"
  using getPriceAndAvailability_skus_bounds [of "''POST''" "skus_of 0" shop_env initial_cache 0 token_ok 2 "Inr ()"]
        getPriceAndAvailability_skus_bounds [of "''POST''" "skus_of 51" shop_env initial_cache 0 token_ok 2 "Inr ()"]
        getPriceAndAvailability_skus_bounds [of "''POST''" "skus_of 2" shop_env initial_cache 0 token_ok 2 "Inr ()"]
  by (simp add: skus_of_def getPriceAndAvailability_def getApiClient_def getAccessToken_def
        token_callback_def token_valid_def str_truthy_def initial_cache_def token_ok_def
        shop_env_def IM_CUSTOMER_NUM_def IM_COUNTRY_CODE_def str_or_def numeral_2_eq_2)

section \<open>The distributor event sink\<close>

text \<open>
  An event that is not \<open>null\<close> always has an event type: one of its members or the
  text \<^verbatim>\<open>unknown\<close>.
\<close>

lemma event_type_of_defined: "event \<noteq> JNull \<Longrightarrow> \<exists>ty. event_type_of event = Inr ty"
  by (cases event) (auto simp: event_type_of_def split: option.splits)

text \<open>
  C9. On a POST request carrying an event, the signature headers decide nothing but
  whether the warning is logged: when the store accepts the write, the record is appended
  to the audit log and the answer is 200; when the store fails, the answer is 500 and the
  log is unchanged. The witness is an event with a forged signature.
\<close>

theorem ingramWebhook_signature_advisory:
  assumes "method = ''POST''" and "event \<noteq> JNull"
  shows "\<exists>ty. event_type_of event = Inr ty \<and>
     ingramWebhook e evs method x_hub_signature authorization event now None
       = (\<lparr>status = 200, body = StatusReceived\<rparr>,
          evs @ [\<lparr>receivedAt = now, eventType = ty, rawPayload = event\<rparr>],
          signature_mismatch e (signature_of x_hub_signature authorization)) \<and>
     ingramWebhook e evs method x_hub_signature authorization event now (Some msg)
       = (\<lparr>status = 500, body = ErrorOf (External msg)\<rparr>, evs,
          signature_mismatch e (signature_of x_hub_signature authorization))"
proof -
  from assms(2) obtain ty where "event_type_of event = Inr ty"
    using event_type_of_defined by blast
  with assms(1) show ?thesis by (simp add: ingramWebhook_def)
qed

theorem ingramWebhook_signature_advisory_witness:
  "''POST'' = ''POST'' \<and> event_order_status \<noteq> JNull \<and>
   signature_mismatch shop_env (signature_of (Some ''sha1=forged'') None) \<and>
   ingramWebhook shop_env [] ''POST'' (Some ''sha1=forged'') None event_order_status 1700 None
     = (\<lparr>status = 200, body = StatusReceived\<rparr>,
        [\<lparr>receivedAt = 1700, eventType = JStr ''OrderStatus'', rawPayload = event_order_status\<rparr>],
        True) \<and>
   ingramWebhook shop_env [] ''POST'' (Some ''sha1=forged'') None event_order_status 1700 (Some ''unavailable'')
     = (\<lparr>status = 500, body = ErrorOf (External ''unavailable'')\<rparr>, [], True)"
  using ingramWebhook_signature_advisory [of "''POST''" event_order_status shop_env "[]"
          "Some ''sha1=forged''" None 1700 "''unavailable''"]
  by (simp add: event_order_status_def ingramWebhook_def event_type_of_def signature_mismatch_def
        signature_of_def str_truthy_def str_or_def shop_env_def sublist_code)

section \<open>The checkout orchestrator\<close>

text \<open>
  The number 19.995 of a request body is the binary64 value nearest to it, a little above
  19.995; its product with 100 rounds to 1999.5 exactly, which \<^verbatim>\<open>Math.round\<close> takes
  to 2000.
\<close>

lemma widget_price: "fl64 (3999 / 200) = Fin (5628092159329567 / 281474976710656)"
  by code_simp

lemma widget_product: "js_mul (Fin (5628092159329567 / 281474976710656)) (Fin 100) = Fin (3999 / 2)"
  by code_simp

lemma widget_amount: "Math_round (js_mul (fl64 (3999 / 200)) (Fin 100)) = Fin 2000"
  by (simp add: widget_price widget_product Math_round_def)


lemma Math_round_nearest:
  "\<exists>n::int. Math_round (Fin y) = Fin (of_int n) \<and> n = \<lfloor>y + 1 / 2\<rfloor> \<and> \<bar>of_int n - y\<bar> \<le> 1 / 2"
proof -
  have "of_int \<lfloor>y + 1 / 2\<rfloor> \<le> y + 1 / 2" and "y + 1 / 2 < of_int \<lfloor>y + 1 / 2\<rfloor> + 1"
    by linarith+
  then have "\<bar>of_int \<lfloor>y + 1 / 2\<rfloor> - y\<bar> \<le> 1 / 2" by linarith
  then show ?thesis by (simp add: Math_round_def)
qed


text \<open>
  A POST request with a cart that is not empty and a customer with an address, on a
  configured processor client, makes the handler ask the processor for one session.
\<close>

lemma createCheckoutSession_requested:
  assumes "method = ''POST''" and "getStripe e \<noteq> None" and "items b = Some its" and "its \<noteq> []"
    and "customer b = Some cu" and "cust_address cu = Some a"
  shows "\<exists>params. snd (createCheckoutSession e method b create) = [params] \<and>
           line_items params = map line_item_of its \<and>
           metadata_of its (customer b) = Inr (metadata params)"
  using assms
  by (auto simp: createCheckoutSession_def metadata_of_def Let_def split: sum.splits)

lemma shop_stripe: "getStripe shop_env \<noteq> None"
  by (simp add: getStripe_def shop_env_def str_truthy_def)

lemma gadget_amount: "Math_round (js_mul (fl64 (107 / 40)) (Fin 100)) = Fin 268"
  by code_simp

lemma gadget_price: "fl64 (107 / 40) = Fin (3011782250804019 / 1125899906842624)"
  by code_simp

lemma trinket_amount: "Math_round (js_mul (fl64 (201 / 200)) (Fin 100)) = Fin 100"
  by code_simp

text \<open>
  C6, as the code has it. For a POST request with a cart that is not empty and a customer
  with an address, on a configured processor client, \<open>createCheckoutSession\<close> asks the
  processor for one session whose line items are the cart items in order, each with the
  amount \<^verbatim>\<open>Math.round(price * 100)\<close>, the product being the binary64 one: for a finite
  price \<open>p\<close> whose binary64 product with 100 is \<open>y\<close> the amount is \<open>\<lfloor>y + 1/2\<rfloor>\<close>, the integer
  nearest to \<open>y\<close> with a tie going up, and not always the integer nearest to \<open>p * 100\<close>. For
  the unit price 19.995 the amount is 2000.
\<close>

theorem createCheckoutSession_unit_amount:
  assumes "method = ''POST''" and "getStripe e \<noteq> None" and "items b = Some its" and "its \<noteq> []"
    and "customer b = Some cu" and "cust_address cu = Some a"
  shows "\<exists>params. snd (createCheckoutSession e method b create
                         :: 'd response \<times> session_params list) = [params] \<and>
     length (line_items params) = length its \<and>
     (\<forall>k<length its.
        unit_amount (line_items params ! k) = Math_round (js_mul (price (its ! k)) (Fin 100)) \<and>
        li_quantity (line_items params ! k) = quantity (its ! k) \<and>
        (\<forall>p y. price (its ! k) = Fin p \<longrightarrow> fl64 (p * 100) = Fin y \<longrightarrow>
           (\<exists>n::int. unit_amount (line_items params ! k) = Fin (of_int n) \<and>
                     n = \<lfloor>y + 1 / 2\<rfloor> \<and> \<bar>of_int n - y\<bar> \<le> 1 / 2)) \<and>
        (price (its ! k) = fl64 (19995 / 1000) \<longrightarrow>
           unit_amount (line_items params ! k) = Fin 2000))"
proof -
  from createCheckoutSession_requested [OF assms, of create] obtain params where
    call: "snd (createCheckoutSession e method b create :: 'd response \<times> session_params list)
             = [params]"
    and li: "line_items params = map line_item_of its"
    by blast
  have "unit_amount (line_items params ! k) = Math_round (js_mul (price (its ! k)) (Fin 100)) \<and>
        li_quantity (line_items params ! k) = quantity (its ! k) \<and>
        (\<forall>p y. price (its ! k) = Fin p \<longrightarrow> fl64 (p * 100) = Fin y \<longrightarrow>
           (\<exists>n::int. unit_amount (line_items params ! k) = Fin (of_int n) \<and>
                     n = \<lfloor>y + 1 / 2\<rfloor> \<and> \<bar>of_int n - y\<bar> \<le> 1 / 2)) \<and>
        (price (its ! k) = fl64 (19995 / 1000) \<longrightarrow>
           unit_amount (line_items params ! k) = Fin 2000)"
    if k: "k < length its" for k
  proof -
    have ua: "unit_amount (line_items params ! k) = Math_round (js_mul (price (its ! k)) (Fin 100))"
      using k by (simp add: li line_item_of_def)
    have q: "li_quantity (line_items params ! k) = quantity (its ! k)"
      using k by (simp add: li line_item_of_def)
    have near: "\<exists>n::int. unit_amount (line_items params ! k) = Fin (of_int n) \<and>
                     n = \<lfloor>y + 1 / 2\<rfloor> \<and> \<bar>of_int n - y\<bar> \<le> 1 / 2"
      if "price (its ! k) = Fin p" and "fl64 (p * 100) = Fin y" for p y
      using that Math_round_nearest [of y] by (simp add: ua js_mul_def)
    have w: "unit_amount (line_items params ! k) = Fin 2000"
      if "price (its ! k) = fl64 (19995 / 1000)"
    proof -
      have "fl64 (19995 / 1000) = fl64 (3999 / 200)" by simp
      with that show ?thesis by (simp only: ua widget_amount)
    qed
    from ua q near w show ?thesis by blast
  qed
  then have "\<forall>k<length its.
        unit_amount (line_items params ! k) = Math_round (js_mul (price (its ! k)) (Fin 100)) \<and>
        li_quantity (line_items params ! k) = quantity (its ! k) \<and>
        (\<forall>p y. price (its ! k) = Fin p \<longrightarrow> fl64 (p * 100) = Fin y \<longrightarrow>
           (\<exists>n::int. unit_amount (line_items params ! k) = Fin (of_int n) \<and>
                     n = \<lfloor>y + 1 / 2\<rfloor> \<and> \<bar>of_int n - y\<bar> \<le> 1 / 2)) \<and>
        (price (its ! k) = fl64 (19995 / 1000) \<longrightarrow>
           unit_amount (line_items params ! k) = Fin 2000)"
    by blast
  moreover have "length (line_items params) = length its" by (simp add: li)
  ultimately show ?thesis using call by blast
qed

theorem createCheckoutSession_unit_amount_witness:
  "''POST'' = ''POST'' \<and> getStripe shop_env \<noteq> None \<and>
   items \<lparr>items = Some [widget, gadget], customer = Some alice\<rparr> = Some [widget, gadget] \<and>
   [widget, gadget] \<noteq> [] \<and>
   customer \<lparr>items = Some [widget, gadget], customer = Some alice\<rparr> = Some alice \<and>
   cust_address alice \<noteq> None \<and>
   price widget = fl64 (19995 / 1000) \<and>
   map (map unit_amount \<circ> line_items)
     (snd (createCheckoutSession shop_env ''POST''
             \<lparr>items = Some [widget, gadget], customer = Some alice\<rparr> create_ok
           :: unit response \<times> session_params list)) = [[Fin 2000, Fin 268]] \<and>
   map (map li_quantity \<circ> line_items)
     (snd (createCheckoutSession shop_env ''POST''
             \<lparr>items = Some [widget, gadget], customer = Some alice\<rparr> create_ok
           :: unit response \<times> session_params list)) = [[Fin 2, Fin 1]]"
proof -
  have a: "cust_address alice = Some \<lparr>addr_street = Some ''1 Main St'', addr_colonia = Some ''Centro'',
       addr_zip = Some ''01000'', addr_city = Some ''CDMX'', addr_state = Some ''CDMX'',
       addr_notes = None\<rparr>"
    by (simp add: alice_def)
  have g: "price gadget = fl64 (107 / 40)" "quantity gadget = Fin 1"
    "price widget = fl64 (3999 / 200)" "quantity widget = Fin 2"
    by (simp_all add: gadget_def widget_def)
  have p3: "items \<lparr>items = Some [widget, gadget], customer = Some alice\<rparr> = Some [widget, gadget]"
    and p4: "[widget, gadget] \<noteq> []"
    and p5: "customer \<lparr>items = Some [widget, gadget], customer = Some alice\<rparr> = Some alice"
    by simp_all
  from createCheckoutSession_unit_amount [where create = create_ok, OF refl shop_stripe p3 p4 p5 a]
  obtain params where
    call: "snd (createCheckoutSession shop_env ''POST''
             \<lparr>items = Some [widget, gadget], customer = Some alice\<rparr> create_ok
           :: unit response \<times> session_params list) = [params]"
    and len: "length (line_items params) = length [widget, gadget]"
    and all: "\<forall>k<length [widget, gadget].
        unit_amount (line_items params ! k)
          = Math_round (js_mul (price ([widget, gadget] ! k)) (Fin 100)) \<and>
        li_quantity (line_items params ! k) = quantity ([widget, gadget] ! k) \<and>
        (\<forall>p y. price ([widget, gadget] ! k) = Fin p \<longrightarrow> fl64 (p * 100) = Fin y \<longrightarrow>
           (\<exists>n::int. unit_amount (line_items params ! k) = Fin (of_int n) \<and>
                     n = \<lfloor>y + 1 / 2\<rfloor> \<and> \<bar>of_int n - y\<bar> \<le> 1 / 2)) \<and>
        (price ([widget, gadget] ! k) = fl64 (19995 / 1000) \<longrightarrow>
           unit_amount (line_items params ! k) = Fin 2000)"
    by blast
  have vals: "unit_amount (line_items params ! 0) = Fin 2000"
    "unit_amount (line_items params ! 1) = Fin 268"
    "li_quantity (line_items params ! 0) = Fin 2" "li_quantity (line_items params ! 1) = Fin 1"
    using all [rule_format, of 0] all [rule_format, of 1]
    by (simp_all add: g widget_amount gadget_amount)
  from len obtain x y where xy: "line_items params = [x, y]"
    by (auto simp: length_Suc_conv)
  from vals have "map unit_amount (line_items params) = [Fin 2000, Fin 268]"
    "map li_quantity (line_items params) = [Fin 2, Fin 1]"
    by (simp_all add: xy)
  with call shop_stripe a show ?thesis by (simp add: widget_def)
qed

text \<open>
  C6 as stated fails: the amount is not always \<open>unitPrice * 100\<close> rounded to the nearest
  integer. The binary64 number nearest to 2.675 lies below 2.675 and its exact product with
  100 is nearer to 267 than to 268, but the binary64 product is 267.5 and the amount sent
  is 268. The binary64 product of the number nearest to 1.005 with 100 lies below 100.5
  and the amount sent is 100, where 1.005 times 100 rounded to the nearest integer is 101.
\<close>

theorem createCheckoutSession_rounding_counterexample:
  "price gadget = Fin (3011782250804019 / 1125899906842624) \<and>
   price trinket = fl64 (1005 / 1000) \<and>
   map (map unit_amount \<circ> line_items)
     (snd (createCheckoutSession shop_env ''POST''
             \<lparr>items = Some [gadget, trinket], customer = Some alice\<rparr> create_ok
           :: unit response \<times> session_params list)) = [[Fin 268, Fin 100]] \<and>
   \<lfloor>(3011782250804019 / 1125899906842624 :: rat) * 100 + 1 / 2\<rfloor> = 267 \<and>
   \<bar>267 - (3011782250804019 / 1125899906842624 :: rat) * 100\<bar> < 1 / 2 \<and>
   1 / 2 < \<bar>268 - (3011782250804019 / 1125899906842624 :: rat) * 100\<bar> \<and>
   \<lfloor>(1005 / 1000 :: rat) * 100 + 1 / 2\<rfloor> = 101"
proof -
  have "map (map unit_amount \<circ> line_items)
     (snd (createCheckoutSession shop_env ''POST''
             \<lparr>items = Some [gadget, trinket], customer = Some alice\<rparr> create_ok
           :: unit response \<times> session_params list)) = [[Fin 268, Fin 100]]"
    using shop_stripe
    by (simp add: createCheckoutSession_def metadata_of_def alice_def create_ok_def
          line_item_of_def gadget_def trinket_def gadget_amount trinket_amount)
  moreover have "\<lfloor>(3011782250804019 / 1125899906842624 :: rat) * 100 + 1 / 2\<rfloor> = 267"
    by code_simp
  moreover have "\<lfloor>(1005 / 1000 :: rat) * 100 + 1 / 2\<rfloor> = 101" by code_simp
  ultimately show ?thesis by (simp add: gadget_def trinket_def gadget_price)
qed

text \<open>
  C10. A POST request with a non-empty item list and no \<open>customer\<close>, or a customer
  without \<open>address\<close>, is answered with 500, and the processor is not asked to create
  a session.
\<close>

theorem createCheckoutSession_missing_customer:
  assumes "method = ''POST''" and "items b = Some its" and "its \<noteq> []"
    and "customer b = None \<or> (\<exists>cu. customer b = Some cu \<and> cust_address cu = None)"
  shows "status (fst (createCheckoutSession e method b create)) = 500 \<and>
         snd (createCheckoutSession e method b create) = []"
  using assms
  by (auto simp: createCheckoutSession_def metadata_of_def)

theorem createCheckoutSession_missing_customer_witness:
  "''POST'' = ''POST'' \<and> items \<lparr>items = Some [widget], customer = None\<rparr> = Some [widget] \<and>
   [widget] \<noteq> [] \<and> customer \<lparr>items = Some [widget], customer = None\<rparr> = None \<and>
   createCheckoutSession shop_env ''POST'' \<lparr>items = Some [widget], customer = None\<rparr> create_ok
     = (\<lparr>status = 500, body = ErrorOf (TypeError ''name'')\<rparr>, []) \<and>
   createCheckoutSession shop_env ''POST''
       \<lparr>items = Some [widget], customer = Some (alice\<lparr>cust_address := None\<rparr>)\<rparr> create_ok
     = (\<lparr>status = 500, body = ErrorOf (TypeError ''street'')\<rparr>, [])"
  using createCheckoutSession_missing_customer [of "''POST''"
          "\<lparr>items = Some [widget], customer = None\<rparr>" "[widget]" shop_env create_ok]
        createCheckoutSession_missing_customer [of "''POST''"
          "\<lparr>items = Some [widget], customer = Some (alice\<lparr>cust_address := None\<rparr>)\<rparr>" "[widget]"
          shop_env create_ok]
  by (simp add: createCheckoutSession_def getStripe_def str_truthy_def shop_env_def
        metadata_of_def alice_def)

section \<open>The payment event consumer\<close>

lemma amount_4000: "js_div (Fin 4000) (Fin 100) = Fin 40"
  by code_simp

lemma order_of_paid: "order_of t session_paid = Inr (order_paid t)"
  by (simp add: order_of_def session_paid_def widget_metadata_def JSON_parse_def order_paid_def
        amount_4000)

lemma stripeWebhook_paid:
  "stripeWebhook shop_env verify_stub orders (delivery_paid t)
     = (\<lparr>status = 200, body = Received\<rparr>, orders @ [order_paid t])"
  using shop_stripe
  by (simp add: stripeWebhook_def verify_stub_def delivery_paid_def order_of_paid)

text \<open>
  The order document cannot be built exactly when the session has no metadata or its
  \<open>items_json\<close> is missing or is not JSON text.
\<close>

lemma order_of_Inl:
  "(\<exists>err. order_of now session = Inl err) \<longleftrightarrow>
     (session_metadata session = None \<or>
      (\<exists>md. session_metadata session = Some md \<and> items_json md = None))"
  by (auto simp: order_of_def JSON_parse_def split: option.splits)








text \<open>
  Deliveries of one verified completion event whose order can be built and written each
  append an order of their own.
\<close>

lemma deliver_all_paid:
  assumes "getStripe e \<noteq> None"
    and "event_type ev = ''checkout.session.completed''"
    and "session_metadata (event_object ev) = Some md" and "items_json md = Some its"
    and "\<forall>req\<in>set reqs.
           constructEvent (rawBody req) (stripe_signature req) (STRIPE_WEBHOOK_SECRET e) = Inr ev \<and>
           write_failure req = None"
  shows "\<exists>docs. (deliver_all e constructEvent orders reqs :: 'd response list \<times> order list)
                   = (replicate (length reqs) \<lparr>status = 200, body = Received\<rparr>, orders @ docs) \<and>
                length docs = length reqs \<and>
                (\<forall>doc\<in>set docs. stripeSessionId doc = session_id (event_object ev) \<and>
                    order_status doc = ''paid'' \<and> ingramStatus doc = ''pending'')"
  using assms(5)
proof (induction reqs arbitrary: orders)
  case Nil
  then show ?case by simp
next
  case (Cons req reqs)
  from assms(3) assms(4) obtain doc where
    doc: "order_of (server_time req) (event_object ev) = Inr doc"
    and props: "stripeSessionId doc = session_id (event_object ev)"
      "order_status doc = ''paid''" "ingramStatus doc = ''pending''"
    by (auto simp: order_of_def JSON_parse_def)
  from Cons.prems have ce: "constructEvent (rawBody req) (stripe_signature req)
      (STRIPE_WEBHOOK_SECRET e) = Inr ev" and wf: "write_failure req = None"
    by simp_all
  from assms(1) assms(2) ce wf doc
  have step: "(stripeWebhook e constructEvent orders req :: 'd response \<times> order list)
                = (\<lparr>status = 200, body = Received\<rparr>, orders @ [doc])"
    by (simp add: stripeWebhook_def)
  from Cons.prems have "\<forall>req\<in>set reqs.
      constructEvent (rawBody req) (stripe_signature req) (STRIPE_WEBHOOK_SECRET e) = Inr ev \<and>
      write_failure req = None"
    by simp
  from Cons.IH [OF this, of "orders @ [doc]"] obtain docs where
    rest: "(deliver_all e constructEvent (orders @ [doc]) reqs :: 'd response list \<times> order list)
             = (replicate (length reqs) \<lparr>status = 200, body = Received\<rparr>, (orders @ [doc]) @ docs)"
    and len: "length docs = length reqs"
    and all: "\<forall>doc\<in>set docs. stripeSessionId doc = session_id (event_object ev) \<and>
                order_status doc = ''paid'' \<and> ingramStatus doc = ''pending''"
    by blast
  have "(deliver_all e constructEvent orders (req # reqs) :: 'd response list \<times> order list)
          = (replicate (length (req # reqs)) \<lparr>status = 200, body = Received\<rparr>, orders @ (doc # docs))"
    by (simp add: step rest)
  moreover have "length (doc # docs) = length (req # reqs)" using len by simp
  moreover have "\<forall>d\<in>set (doc # docs). stripeSessionId d = session_id (event_object ev) \<and>
                order_status d = ''paid'' \<and> ingramStatus d = ''pending''"
    using props all by simp
  ultimately show ?case by blast
qed

text \<open>
  C1, as the code has it. \<open>stripeWebhook\<close> does not look for an order of the session
  before it writes: each of K deliveries of a verified completion event whose order can
  be built and written appends one order, so the store gains K orders of that session
  identifier, each with status \<^verbatim>\<open>paid\<close> and distributor status \<^verbatim>\<open>pending\<close>, and
  every delivery is answered with 200.
\<close>

theorem stripeWebhook_one_order_per_delivery:
  assumes "getStripe e \<noteq> None"
    and "event_type ev = ''checkout.session.completed''"
    and "session_metadata (event_object ev) = Some md" and "items_json md = Some its"
    and "\<forall>req\<in>set reqs.
           constructEvent (rawBody req) (stripe_signature req) (STRIPE_WEBHOOK_SECRET e) = Inr ev \<and>
           write_failure req = None"
  shows "\<exists>docs. (deliver_all e constructEvent orders reqs :: 'd response list \<times> order list)
                   = (replicate (length reqs) \<lparr>status = 200, body = Received\<rparr>, orders @ docs) \<and>
                length docs = length reqs \<and>
                (\<forall>doc\<in>set docs. stripeSessionId doc = session_id (event_object ev) \<and>
                    order_status doc = ''paid'' \<and> ingramStatus doc = ''pending'') \<and>
                length (orders_of_session (session_id (event_object ev)) (orders @ docs))
                  = length (orders_of_session (session_id (event_object ev)) orders) + length reqs"
proof -
  from deliver_all_paid [where constructEvent = constructEvent and orders = orders
          and reqs = reqs and e = e and ev = ev and md = md and its = its]
       assms
  obtain docs where
    run: "(deliver_all e constructEvent orders reqs :: 'd response list \<times> order list)
            = (replicate (length reqs) \<lparr>status = 200, body = Received\<rparr>, orders @ docs)"
    and len: "length docs = length reqs"
    and all: "\<forall>doc\<in>set docs. stripeSessionId doc = session_id (event_object ev) \<and>
                order_status doc = ''paid'' \<and> ingramStatus doc = ''pending''"
    by blast
  from all have "filter (\<lambda>doc. stripeSessionId doc = session_id (event_object ev)) docs = docs"
    by (simp add: filter_id_conv)
  then have "length (orders_of_session (session_id (event_object ev)) (orders @ docs))
               = length (orders_of_session (session_id (event_object ev)) orders) + length reqs"
    by (simp add: orders_of_session_def len)
  with run len all show ?thesis by blast
qed

theorem stripeWebhook_one_order_per_delivery_witness:
  "getStripe shop_env \<noteq> None \<and>
   session_metadata session_paid = Some widget_metadata \<and>
   verify_stub (rawBody (delivery_paid 1700)) (stripe_signature (delivery_paid 1700))
       (STRIPE_WEBHOOK_SECRET shop_env)
     = Inr \<lparr>event_type = ''checkout.session.completed'', event_object = session_paid\<rparr> \<and>
   write_failure (delivery_paid 1700) = None \<and>
   (deliver_all shop_env verify_stub [] [delivery_paid 1700] :: unit response list \<times> order list)
     = ([\<lparr>status = 200, body = Received\<rparr>], [order_paid 1700]) \<and>
   order_status (order_paid 1700) = ''paid'' \<and> ingramStatus (order_paid 1700) = ''pending''"
proof -
  have a: "verify_stub (rawBody (delivery_paid 1700)) (stripe_signature (delivery_paid 1700))
             (STRIPE_WEBHOOK_SECRET shop_env)
           = Inr \<lparr>event_type = ''checkout.session.completed'', event_object = session_paid\<rparr>"
    by (simp add: verify_stub_def delivery_paid_def)
  have b: "write_failure (delivery_paid 1700) = None" by (simp add: delivery_paid_def)
  have c: "session_metadata session_paid = Some widget_metadata" by (simp add: session_paid_def)
  have d: "(deliver_all shop_env verify_stub [] [delivery_paid 1700]
              :: unit response list \<times> order list)
            = ([\<lparr>status = 200, body = Received\<rparr>], [order_paid 1700])"
    by (simp add: stripeWebhook_paid)
  have e: "order_status (order_paid 1700) = ''paid'' \<and> ingramStatus (order_paid 1700) = ''pending''"
    by (simp add: order_paid_def)
  have f: "items_json widget_metadata = Some (JArr [JObj [(''sku'', JStr ''A1''), (''qty'', JNum 2),
             (''price'', JNum (5628092159329567 / 281474976710656)), (''name'', JStr ''Widget''),
             (''vendor'', JStr ''Acme'')]])"
    by (simp add: widget_metadata_def)
  have g: "\<forall>req\<in>set [delivery_paid 1700].
             verify_stub (rawBody req) (stripe_signature req) (STRIPE_WEBHOOK_SECRET shop_env)
               = Inr \<lparr>event_type = ''checkout.session.completed'', event_object = session_paid\<rparr> \<and>
             write_failure req = None"
    using a b by simp
  have "\<exists>docs. (deliver_all shop_env verify_stub [] [delivery_paid 1700]
                    :: unit response list \<times> order list)
                  = (replicate (length [delivery_paid 1700]) \<lparr>status = 200, body = Received\<rparr>, [] @ docs) \<and>
                length docs = length [delivery_paid 1700] \<and>
                (\<forall>doc\<in>set docs. stripeSessionId doc
                     = session_id (event_object \<lparr>event_type = ''checkout.session.completed'',
                                                  event_object = session_paid\<rparr>) \<and>
                    order_status doc = ''paid'' \<and> ingramStatus doc = ''pending'') \<and>
                length (orders_of_session (session_id (event_object
                     \<lparr>event_type = ''checkout.session.completed'', event_object = session_paid\<rparr>))
                   ([] @ docs))
                  = length (orders_of_session (session_id (event_object
                     \<lparr>event_type = ''checkout.session.completed'', event_object = session_paid\<rparr>)) [])
                    + length [delivery_paid 1700]"
    by (rule stripeWebhook_one_order_per_delivery [where md = widget_metadata])
       (simp_all add: shop_stripe c f g)
  then have "\<exists>docs. [order_paid 1700] = docs \<and> (\<forall>doc\<in>set docs. order_status doc = ''paid'')"
    unfolding d by auto
  then have "order_status (order_paid 1700) = ''paid''" by auto
  with shop_stripe a b c d e show ?thesis by simp
qed

text \<open>
  C1 as stated fails: the completion event of session \<^verbatim>\<open>sess_123\<close> delivered twice,
  two seconds apart, leaves two orders of that session in the store.
\<close>

theorem stripeWebhook_duplicate_counterexample:
  "(deliver_all shop_env verify_stub [] [delivery_paid 1700, delivery_paid 1702]
      :: unit response list \<times> order list)
     = ([\<lparr>status = 200, body = Received\<rparr>, \<lparr>status = 200, body = Received\<rparr>],
        [order_paid 1700, order_paid 1702]) \<and>
   length (orders_of_session ''sess_123'' [order_paid 1700, order_paid 1702]) = 2"
  by (simp add: stripeWebhook_paid orders_of_session_def order_paid_def)

text \<open>
  C3, as the code has it. The answer of \<open>stripeWebhook\<close> is 200, 400 or 500. It is 400
  exactly when the processor client is configured and the signature check fails. It is
  500 exactly when the client is not configured, or a verified completion event has no
  metadata, or its \<open>items_json\<close> is missing or does not parse, or the store fails on the
  write. Every other delivery is answered with 200, and no answer other than 200 changes
  the store.
\<close>

theorem stripeWebhook_status:
  "(status (fst (stripeWebhook e constructEvent orders req)) = 200 \<or>
    status (fst (stripeWebhook e constructEvent orders req)) = 400 \<or>
    status (fst (stripeWebhook e constructEvent orders req)) = 500) \<and>
   (status (fst (stripeWebhook e constructEvent orders req)) = 400 \<longleftrightarrow>
      getStripe e \<noteq> None \<and>
      (\<exists>err. constructEvent (rawBody req) (stripe_signature req) (STRIPE_WEBHOOK_SECRET e) = Inl err)) \<and>
   (status (fst (stripeWebhook e constructEvent orders req)) = 500 \<longleftrightarrow>
      getStripe e = None \<or>
      (\<exists>ev. constructEvent (rawBody req) (stripe_signature req) (STRIPE_WEBHOOK_SECRET e) = Inr ev \<and>
            event_type ev = ''checkout.session.completed'' \<and>
            (session_metadata (event_object ev) = None \<or>
             (\<exists>md. session_metadata (event_object ev) = Some md \<and> items_json md = None) \<or>
             write_failure req \<noteq> None))) \<and>
   (status (fst (stripeWebhook e constructEvent orders req)) \<noteq> 200 \<longrightarrow>
      snd (stripeWebhook e constructEvent orders req) = orders)"
proof (cases "getStripe e = None")
  case True
  then show ?thesis by (auto simp: stripeWebhook_def)
next
  case conf: False
  show ?thesis
  proof (cases "constructEvent (rawBody req) (stripe_signature req) (STRIPE_WEBHOOK_SECRET e)")
    case (Inl err)
    with conf show ?thesis by (auto simp: stripeWebhook_def)
  next
    case (Inr ev)
    show ?thesis
    proof (cases "event_type ev = ''checkout.session.completed''")
      case False
      with conf Inr show ?thesis by (auto simp: stripeWebhook_def)
    next
      case True
      show ?thesis
      proof (cases "order_of (server_time req) (event_object ev)")
        case (Inl err)
        then have "session_metadata (event_object ev) = None \<or>
             (\<exists>md. session_metadata (event_object ev) = Some md \<and> items_json md = None)"
          using order_of_Inl by blast
        with conf Inr True Inl show ?thesis by (auto simp: stripeWebhook_def)
      next
        case doc: (Inr doc)
        then have ok: "\<not> (session_metadata (event_object ev) = None \<or>
             (\<exists>md. session_metadata (event_object ev) = Some md \<and> items_json md = None))"
          using order_of_Inl [of "server_time req" "event_object ev"] by simp
        show ?thesis
        proof (cases "write_failure req")
          case None
          with conf Inr True doc ok show ?thesis by (auto simp: stripeWebhook_def)
        next
          case (Some msg)
          with conf Inr True doc show ?thesis by (auto simp: stripeWebhook_def)
        qed
      qed
    qed
  qed
qed

theorem stripeWebhook_status_witness:
  "getStripe shop_env \<noteq> None \<and>
   verify_stub (rawBody delivery_forged) (stripe_signature delivery_forged)
       (STRIPE_WEBHOOK_SECRET shop_env)
     = Inl (External ''No signatures found matching the expected signature for payload'') \<and>
   (stripeWebhook shop_env verify_stub [order_paid 1600] delivery_forged :: unit response \<times> order list)
     = (\<lparr>status = 400,
         body = ErrorOf (External ''No signatures found matching the expected signature for payload'')\<rparr>,
        [order_paid 1600])"
  using stripeWebhook_status [of shop_env verify_stub "[order_paid 1600]" delivery_forged]
        shop_stripe
  by (simp add: stripeWebhook_def verify_stub_def delivery_forged_def)

text \<open>
  C3 as stated fails: a verified completion event of a session without \<open>items_json\<close> is
  answered with 500 although the signature verified and the store did not fail; the write
  was never attempted.
\<close>

theorem stripeWebhook_unparsable_items_counterexample:
  "getStripe shop_env \<noteq> None \<and>
   verify_stub (rawBody delivery_foreign) (stripe_signature delivery_foreign)
       (STRIPE_WEBHOOK_SECRET shop_env)
     = Inr \<lparr>event_type = ''checkout.session.completed'', event_object = session_foreign\<rparr> \<and>
   write_failure delivery_foreign = None \<and>
   (stripeWebhook shop_env verify_stub [] delivery_foreign :: unit response \<times> order list)
     = (\<lparr>status = 500, body = ErrorOf SyntaxError\<rparr>, [])"
  using shop_stripe
  by (simp add: stripeWebhook_def verify_stub_def delivery_foreign_def session_foreign_def
        order_of_def JSON_parse_def)

end
